theory Spec2Isabelle
  imports Complex_Main "HOL-Library.AList"
begin

section \<open>Data model (app/models/schemas.py)\<close>

text \<open>
  Values obtained from \<^verbatim>\<open>json.loads\<close> or \<^verbatim>\<open>response.json()\<close>. A JSON object is the
  list of its items in insertion order, with distinct keys, as a Python \<^verbatim>\<open>dict\<close>.
  Numbers are rationals: the code only tests them for zero or hands them on.
\<close>

datatype json =
    JNull
  | JBool bool
  | JNum rat
  | JStr string
  | JArr "json list"
  | JObj "(string \<times> json) list"

text \<open>Python truthiness of such a value (\<^verbatim>\<open>if x:\<close>, \<^verbatim>\<open>not x\<close>).\<close>

fun truthy :: "json \<Rightarrow> bool" where
  "truthy JNull = False"
| "truthy (JBool b) = b"
| "truthy (JNum r) = (r \<noteq> 0)"
| "truthy (JStr s) = (s \<noteq> [])"
| "truthy (JArr xs) = (xs \<noteq> [])"
| "truthy (JObj kvs) = (kvs \<noteq> [])"

text \<open>Every exception of the program is a value; \<^verbatim>\<open>HTTPException\<close> keeps its status code.\<close>

datatype error =
    Exception string
  | HTTPException nat string

datatype JobStatus =
  PENDING | SCRAPING | EXTRACTING | GENERATING | DEPLOYING | COMPLETED | FAILED

datatype BusinessType =
  RESTAURANT | TRADES | PROFESSIONAL | RETAIL | CREATIVE | HEALTH | GENERAL

record JobCreateRequest =
  business_name :: string
  location :: "string option"
  website_url :: "string option"
  facebook_url :: "string option"
  instagram_url :: "string option"
  client_email :: "string option"
  template_preference :: "string option"

record DeployRequest =
  custom_domain :: "string option"

record ContactInfo =
  phone :: "string option"
  email :: "string option"
  address :: "string option"
  website :: "string option"

record SocialMedia =
  facebook :: "string option"
  instagram :: "string option"
  twitter :: "string option"
  linkedin :: "string option"
  youtube :: "string option"

record Service =
  name :: string
  description :: "string option"
  price :: "string option"
  icon :: "string option"

record Testimonial =
  quote :: string
  author :: string
  t_rating :: "rat option"
  t_source :: "string option"
  date :: "string option"

record BusinessHours =
  monday :: "string option"
  tuesday :: "string option"
  wednesday :: "string option"
  thursday :: "string option"
  friday :: "string option"
  saturday :: "string option"
  sunday :: "string option"

text \<open>
  The model does not validate on assignment, so the four attributes that
  \<^verbatim>\<open>_merge_gap_data\<close> assigns straight from the parsed reply (\<open>tagline\<close>,
  \<open>description_short\<close>, \<open>description_long\<close>, \<open>unique_selling_points\<close>) can hold any
  JSON value afterwards; they are kept as \<open>json\<close>, with \<open>JNull\<close> for \<^verbatim>\<open>None\<close>.
\<close>

record ExtractedBusinessData =
  ebd_name :: string
  tagline :: json
  description_short :: json
  description_long :: json
  business_type :: BusinessType
  year_established :: "string option"
  services :: "Service list"
  unique_selling_points :: json
  contact :: ContactInfo
  social_media :: SocialMedia
  hours :: "BusinessHours option"
  testimonials :: "Testimonial list"
  rating :: "rat option"
  review_count :: "int option"
  images :: "string list"
  logo_url :: "string option"
  data_quality_score :: int
  sources_used :: "string list"
  missing_fields :: "string list"

record ScrapedSource =
  source :: string
  success :: bool
  data :: "(string \<times> json) list option"
  src_error :: "string option"

record ScrapeResult =
  sources :: "ScrapedSource list"
  raw_data :: "(string \<times> (string \<times> json) list) list"

record GeneratedSite =
  html :: string
  css :: "string option"
  js :: "string option"
  assets :: "string list"
  template_used :: string
  sections_included :: "string list"
  generation_time_ms :: int

record DeploymentResult =
  deployment_id :: string
  url :: string
  production_url :: string
  deploy_status :: string
  dns_records :: "(string \<times> string) list list option"

record JobProgress =
  stage :: string
  message :: string
  progress_percent :: int
  timestamp :: nat

record Job =
  job_id :: string
  status :: JobStatus
  created_at :: nat
  updated_at :: nat
  request :: JobCreateRequest
  progress :: "JobProgress list"
  current_stage :: "string option"
  scrape_result :: "ScrapeResult option"
  extracted_data :: "ExtractedBusinessData option"
  generated_site :: "GeneratedSite option"
  deployment :: "DeploymentResult option"
  error :: "string option"
  error_details :: "json option"

record JobResponse =
  job :: Job
  response_message :: string

section \<open>Job store (app/services/job_store.py)\<close>

text \<open>
  \<^verbatim>\<open>self._jobs\<close> is a \<^verbatim>\<open>dict\<close>: its items in insertion order, keys distinct.
  Assigning to a key that is present replaces the value in place; a new key goes to
  the end. That is \<open>AList.update\<close>.
\<close>

type_synonym JobStore = "(string \<times> Job) list"

definition JobStore_init :: JobStore where
  "JobStore_init = []"

definition create :: "JobStore \<Rightarrow> Job \<Rightarrow> Job \<times> JobStore" where
  "create jobs j = (j, AList.update (job_id j) j jobs)"

definition get :: "JobStore \<Rightarrow> string \<Rightarrow> Job option" where
  "get jobs i = map_of jobs i"

text \<open>\<open>now\<close> is the reading of \<^verbatim>\<open>datetime.utcnow()\<close>.\<close>

definition update :: "nat \<Rightarrow> JobStore \<Rightarrow> Job \<Rightarrow> Job \<times> JobStore" where
  "update now jobs j =
     (let j' = j\<lparr>updated_at := now\<rparr>
      in (j', AList.update (job_id j') j' jobs))"

definition delete :: "JobStore \<Rightarrow> string \<Rightarrow> bool \<times> JobStore" where
  "delete jobs i =
     (if i \<in> fst ` set jobs then (True, AList.delete i jobs) else (False, jobs))"

definition count :: "JobStore \<Rightarrow> JobStatus option \<Rightarrow> nat" where
  "count jobs st =
     (case st of
        Some s \<Rightarrow> length (filter (\<lambda>j. status j = s) (map snd jobs))
      | None \<Rightarrow> length jobs)"

text \<open>The records the store holds under one id.\<close>

definition records_for :: "JobStore \<Rightarrow> string \<Rightarrow> Job list" where
  "records_for jobs i = map snd (filter (\<lambda>kv. fst kv = i) jobs)"

section \<open>Python library behaviour the services rely on\<close>

text \<open>Truthiness of an \<^verbatim>\<open>Optional[str]\<close>: neither \<^verbatim>\<open>None\<close> nor the empty string.\<close>

definition truthy_str :: "string option \<Rightarrow> bool" where
  "truthy_str v = (case v of None \<Rightarrow> False | Some s \<Rightarrow> s \<noteq> [])"

text \<open>\<^verbatim>\<open>str(n)\<close> for a natural number, as the f-strings print it.\<close>

fun str_nat :: "nat \<Rightarrow> string" where
  "str_nat n =
     (if n < 10 then [char_of (48 + n)]
      else str_nat (n div 10) @ [char_of (48 + n mod 10)])"

text \<open>
  The callback the services report progress to: stage, message, percent. It acts on
  the caller's state \<open>'w\<close>. The services test \<^verbatim>\<open>if on_progress:\<close>, so it is optional.
\<close>

type_synonym 'w progress_cb = "string \<Rightarrow> string \<Rightarrow> int \<Rightarrow> 'w \<Rightarrow> 'w"

definition report :: "'w progress_cb option \<Rightarrow> string \<Rightarrow> string \<Rightarrow> int \<Rightarrow> 'w \<Rightarrow> 'w" where
  "report on_progress stg msg pct w =
     (case on_progress of None \<Rightarrow> w | Some cb \<Rightarrow> cb stg msg pct w)"

section \<open>Scraper service (app/services/scraper.py)\<close>

text \<open>
  What one connector coroutine ends with once its remote calls and retries are over:
  it returns a success record carrying the payload it read, it returns a failure
  record carrying a reason, or it raises (a transport error, a validation error, or
  tenacity's \<^verbatim>\<open>RetryError\<close>). The remote services are outside the program, so the
  outcome is an input of the model.
\<close>

datatype connector_outcome =
    Payload "(string \<times> json) list option"
  | Failure string
  | Raises string

text \<open>
  Every \<^verbatim>\<open>return\<close> of a connector builds its record with the connector's own
  literal tag: \<^verbatim>\<open>ScrapedSource(source="google", success=True, data=...)\<close> or
  \<^verbatim>\<open>ScrapedSource(source="google", success=False, error=...)\<close>.
\<close>

definition connector :: "string \<Rightarrow> connector_outcome \<Rightarrow> error + ScrapedSource" where
  "connector tag out =
     (case out of
        Payload d \<Rightarrow> Inr \<lparr>source = tag, success = True, data = d, src_error = None\<rparr>
      | Failure e \<Rightarrow> Inr \<lparr>source = tag, success = False, data = None, src_error = Some e\<rparr>
      | Raises m \<Rightarrow> Inl (Exception m))"

definition scrape_google_places :: "connector_outcome \<Rightarrow> error + ScrapedSource" where
  "scrape_google_places out = connector ''google'' out"

definition scrape_website :: "connector_outcome \<Rightarrow> error + ScrapedSource" where
  "scrape_website out = connector ''website'' out"

definition scrape_facebook :: "connector_outcome \<Rightarrow> error + ScrapedSource" where
  "scrape_facebook out = connector ''facebook'' out"

definition scrape_instagram :: "connector_outcome \<Rightarrow> error + ScrapedSource" where
  "scrape_instagram out = connector ''instagram'' out"

definition empty_result :: "string \<Rightarrow> error + ScrapedSource" where
  "empty_result src =
     Inr \<lparr>source = src, success = False, data = None, src_error = Some ''Not provided''\<rparr>"

text \<open>The outcomes of the four remote sources, for the connectors that are started.\<close>

record remote_sources =
  google_outcome :: connector_outcome
  website_outcome :: connector_outcome
  facebook_outcome :: connector_outcome
  instagram_outcome :: connector_outcome

text \<open>\<^verbatim>\<open>str(exc)\<close> of a raised exception.\<close>

fun str_error :: "error \<Rightarrow> string" where
  "str_error (Exception m) = m"
| "str_error (HTTPException c d) = str_nat c @ '': '' @ d"

text \<open>
  The loop over \<^verbatim>\<open>zip(source_names, results)\<close>: \<open>srcs\<close> and \<open>raw\<close> are the
  lists built so far. \<^verbatim>\<open>result.data\<close> is truthy when it is a non-empty dict.
\<close>

fun process_results ::
  "(string \<times> (error + ScrapedSource)) list \<Rightarrow> ScrapedSource list \<Rightarrow>
   (string \<times> (string \<times> json) list) list \<Rightarrow>
   ScrapedSource list \<times> (string \<times> (string \<times> json) list) list" where
  "process_results [] srcs raw = (srcs, raw)"
| "process_results ((nm, Inl e) # rest) srcs raw =
     process_results rest
       (srcs @ [\<lparr>source = nm, success = False, data = None, src_error = Some (str_error e)\<rparr>])
       raw"
| "process_results ((nm, Inr r) # rest) srcs raw =
     process_results rest (srcs @ [r])
       (case data r of
          Some d \<Rightarrow> if success r \<and> d \<noteq> [] then AList.update nm d raw else raw
        | None \<Rightarrow> raw)"

definition source_names :: "string list" where
  "source_names = [''google'', ''website'', ''facebook'', ''instagram'']"

text \<open>
  The task list of \<^verbatim>\<open>scrape_all\<close>, in the order it is built; \<^verbatim>\<open>asyncio.gather\<close>
  with \<^verbatim>\<open>return_exceptions=True\<close> gives the results in that order, an exception
  standing where its task raised.
\<close>

definition gather_tasks :: "remote_sources \<Rightarrow> JobCreateRequest \<Rightarrow> (error + ScrapedSource) list" where
  "gather_tasks env req =
     [ if truthy_str (location req) then scrape_google_places (google_outcome env)
       else empty_result ''google'',
       if website_url req \<noteq> None then scrape_website (website_outcome env)
       else empty_result ''website'',
       if facebook_url req \<noteq> None then scrape_facebook (facebook_outcome env)
       else empty_result ''facebook'',
       if truthy_str (instagram_url req) then scrape_instagram (instagram_outcome env)
       else empty_result ''instagram'' ]"

definition scrape_all ::
  "remote_sources \<Rightarrow> JobCreateRequest \<Rightarrow> 'w progress_cb option \<Rightarrow> 'w \<Rightarrow> ScrapeResult \<times> 'w" where
  "scrape_all env req on_progress w =
     (let results = gather_tasks env req;
          w1 = report on_progress ''scraping'' ''Scraping data sources...'' 10 w;
          (srcs, raw) = process_results (zip source_names results) [] [];
          successful = length (filter success srcs);
          w2 = report on_progress ''scraping''
                 (''Scraped '' @ str_nat successful @ ''/'' @ str_nat (length srcs) @ '' sources'')
                 30 w1
      in (\<lparr>sources = srcs, raw_data = raw\<rparr>, w2))"

section \<open>AI engine (app/services/ai_engine.py)\<close>

subsection \<open>String operations of \<^verbatim>\<open>_parse_json_response\<close>\<close>

text \<open>
  \<^verbatim>\<open>str.strip()\<close> removes the ASCII white space characters (tab, line feed, vertical
  tab, form feed, carriage return, the separators 28 to 31 and the blank) at both ends.
\<close>

definition is_space :: "char \<Rightarrow> bool" where
  "is_space c = (of_char c \<in> {9, 10, 11, 12, 13, 28, 29, 30, 31, 32 :: nat})"

definition strip :: "string \<Rightarrow> string" where
  "strip s = rev (dropWhile is_space (rev (dropWhile is_space s)))"

text \<open>Index of the first occurrence of \<open>sub\<close> in \<open>s\<close>.\<close>

fun find_in :: "string \<Rightarrow> string \<Rightarrow> nat option" where
  "find_in sub [] = (if sub = [] then Some 0 else None)"
| "find_in sub (c # cs) =
     (if take (length sub) (c # cs) = sub then Some 0
      else map_option Suc (find_in sub cs))"

text \<open>\<^verbatim>\<open>sub in s\<close>, \<^verbatim>\<open>s.find(sub, start)\<close> and \<^verbatim>\<open>s.rfind(sub)\<close>; the last two give \<open>-1\<close>
  when there is no occurrence.\<close>

definition contains :: "string \<Rightarrow> string \<Rightarrow> bool" where
  "contains sub s = (find_in sub s \<noteq> None)"

definition str_find :: "string \<Rightarrow> string \<Rightarrow> nat \<Rightarrow> int" where
  "str_find s sub start =
     (if start > length s then - 1
      else case find_in sub (drop start s) of
             None \<Rightarrow> - 1
           | Some i \<Rightarrow> int (start + i))"

definition str_rfind :: "string \<Rightarrow> string \<Rightarrow> int" where
  "str_rfind s sub =
     (case find_in (rev sub) (rev s) of
        None \<Rightarrow> - 1
      | Some i \<Rightarrow> int (length s) - int i - int (length sub))"

text \<open>\<^verbatim>\<open>s[a:b]\<close>: a negative index counts from the end, and both are clamped to the string.\<close>

definition slice_index :: "nat \<Rightarrow> int \<Rightarrow> nat" where
  "slice_index n i = (if i < 0 then nat (max 0 (i + int n)) else min (nat i) n)"

definition slice :: "string \<Rightarrow> int \<Rightarrow> int \<Rightarrow> string" where
  "slice s a b =
     (let lo = slice_index (length s) a; hi = slice_index (length s) b
      in take (hi - lo) (drop lo s))"

definition fence :: string where
  "fence = [CHR 0x60, CHR 0x60, CHR 0x60]"

text \<open>
  The body of a fenced code block, as both \<^verbatim>\<open>_parse_json_response\<close> and the site
  generator cut it out: \<open>tag\<close> is the opening fence, \<open>k\<close> its length.
\<close>

definition cut_fenced :: "string \<Rightarrow> nat \<Rightarrow> string \<Rightarrow> string" where
  "cut_fenced tag k content =
     (let start = str_find content tag 0 + int k;
          stop = str_find content fence (nat start)
      in strip (slice content start stop))"

text \<open>
  \<^verbatim>\<open>json.loads\<close> is a parameter: \<open>None\<close> stands for \<^verbatim>\<open>JSONDecodeError\<close>. The function
  itself never raises: when both attempts fail it returns the empty dict.
\<close>

definition parse_json_response :: "(string \<Rightarrow> json option) \<Rightarrow> string \<Rightarrow> json" where
  "parse_json_response loads content0 =
     (let content1 =
            (if contains (fence @ ''json'') content0 then cut_fenced (fence @ ''json'') 7 content0
             else if contains fence content0 then cut_fenced fence 3 content0
             else content0);
          content = strip content1
      in case loads content of
           Some v \<Rightarrow> v
         | None \<Rightarrow>
             (let last_brace = str_rfind content ''}''
              in if last_brace > 0
                 then (case loads (slice content 0 (last_brace + 1)) of
                         Some v \<Rightarrow> v
                       | None \<Rightarrow> JObj [])
                 else JObj []))"

subsection \<open>Dynamic values: dict access, iteration, validation\<close>

definition and_then :: "error + 'a \<Rightarrow> ('a \<Rightarrow> error + 'b) \<Rightarrow> error + 'b" where
  "and_then m f = (case m of Inl e \<Rightarrow> Inl e | Inr x \<Rightarrow> f x)"

text \<open>\<^verbatim>\<open>x.get(key, default)\<close>: only a dict has the method.\<close>

fun dict_get :: "json \<Rightarrow> string \<Rightarrow> json \<Rightarrow> error + json" where
  "dict_get (JObj kvs) k dflt = Inr (case map_of kvs k of Some v \<Rightarrow> v | None \<Rightarrow> dflt)"
| "dict_get _ k dflt = Inl (Exception ''AttributeError'')"

text \<open>\<^verbatim>\<open>for s in x\<close>: a list gives its elements, a string its characters, a dict its keys;
  nothing else is iterable.\<close>

fun py_iter :: "json \<Rightarrow> error + json list" where
  "py_iter (JArr xs) = Inr xs"
| "py_iter (JStr s) = Inr (map (\<lambda>c. JStr [c]) s)"
| "py_iter (JObj kvs) = Inr (map (\<lambda>kv. JStr (fst kv)) kvs)"
| "py_iter _ = Inl (Exception ''TypeError'')"

text \<open>
  Validation of a constructor argument against the declared field type. A value of
  the declared JSON type is accepted and anything else is a \<^verbatim>\<open>ValidationError\<close>; the
  lax-mode coercions of pydantic (a numeric string for a number) are not modelled.
\<close>

fun v_str :: "json \<Rightarrow> error + string" where
  "v_str (JStr s) = Inr s"
| "v_str _ = Inl (Exception ''ValidationError'')"

fun v_opt_str :: "json \<Rightarrow> error + string option" where
  "v_opt_str JNull = Inr None"
| "v_opt_str (JStr s) = Inr (Some s)"
| "v_opt_str _ = Inl (Exception ''ValidationError'')"

fun v_opt_float :: "json \<Rightarrow> error + rat option" where
  "v_opt_float JNull = Inr None"
| "v_opt_float (JNum r) = Inr (Some r)"
| "v_opt_float _ = Inl (Exception ''ValidationError'')"

fun v_int :: "json \<Rightarrow> error + int" where
  "v_int (JNum r) =
     (if r = of_int \<lfloor>r\<rfloor> then Inr \<lfloor>r\<rfloor> else Inl (Exception ''ValidationError''))"
| "v_int _ = Inl (Exception ''ValidationError'')"

fun v_opt_int :: "json \<Rightarrow> error + int option" where
  "v_opt_int JNull = Inr None"
| "v_opt_int v = and_then (v_int v) (\<lambda>n. Inr (Some n))"

fun v_str_items :: "json list \<Rightarrow> error + string list" where
  "v_str_items [] = Inr []"
| "v_str_items (x # xs) =
     and_then (v_str x) (\<lambda>s. and_then (v_str_items xs) (\<lambda>ss. Inr (s # ss)))"

fun v_str_list :: "json \<Rightarrow> error + string list" where
  "v_str_list (JArr xs) = v_str_items xs"
| "v_str_list _ = Inl (Exception ''ValidationError'')"

fun is_dict :: "json \<Rightarrow> bool" where
  "is_dict (JObj kvs) = True"
| "is_dict _ = False"

fun is_str :: "json \<Rightarrow> bool" where
  "is_str (JStr s) = True"
| "is_str _ = False"

subsection \<open>\<^verbatim>\<open>_to_business_data\<close>\<close>

definition default_contact :: ContactInfo where
  "default_contact = \<lparr>phone = None, email = None, address = None, website = None\<rparr>"

definition default_social :: SocialMedia where
  "default_social =
     \<lparr>facebook = None, instagram = None, twitter = None, linkedin = None, youtube = None\<rparr>"

text \<open>\<^verbatim>\<open>BusinessType(value)\<close>: the member with that value, or \<^verbatim>\<open>ValueError\<close> (\<open>None\<close>).\<close>

definition business_type_of :: "json \<Rightarrow> BusinessType option" where
  "business_type_of v =
     (if v = JStr ''restaurant'' then Some RESTAURANT
      else if v = JStr ''trades'' then Some TRADES
      else if v = JStr ''professional'' then Some PROFESSIONAL
      else if v = JStr ''retail'' then Some RETAIL
      else if v = JStr ''creative'' then Some CREATIVE
      else if v = JStr ''health'' then Some HEALTH
      else if v = JStr ''general'' then Some GENERAL
      else None)"

text \<open>\<^verbatim>\<open>Service(name=s.get("name", "Service"), description=s.get("description"),
  icon=s.get("icon"))\<close> for a dict \<open>s\<close>.\<close>

definition service_of_dict :: "json \<Rightarrow> error + Service" where
  "service_of_dict s =
     and_then (dict_get s ''name'' (JStr ''Service'')) (\<lambda>n.
     and_then (dict_get s ''description'' JNull) (\<lambda>d.
     and_then (dict_get s ''icon'' JNull) (\<lambda>i.
     and_then (v_str n) (\<lambda>n'.
     and_then (v_opt_str d) (\<lambda>d'.
     and_then (v_opt_str i) (\<lambda>i'.
       Inr \<lparr>name = n', description = d', price = None, icon = i'\<rparr>))))))"

text \<open>The loop over \<^verbatim>\<open>extracted.get("services", [])\<close>.\<close>

fun parse_services :: "json list \<Rightarrow> Service list \<Rightarrow> error + Service list" where
  "parse_services [] acc = Inr acc"
| "parse_services (s # rest) acc =
     (if is_dict s then
        and_then (service_of_dict s) (\<lambda>sv. parse_services rest (acc @ [sv]))
      else if is_str s then
        and_then (v_str s) (\<lambda>n.
          parse_services rest
            (acc @ [\<lparr>name = n, description = None, price = None, icon = None\<rparr>]))
      else parse_services rest acc)"

definition testimonial_of_dict :: "json \<Rightarrow> error + Testimonial" where
  "testimonial_of_dict t =
     and_then (dict_get t ''text'' (JStr [])) (\<lambda>txt.
     and_then (dict_get t ''quote'' txt) (\<lambda>q.
     and_then (dict_get t ''author_name'' (JStr ''Customer'')) (\<lambda>an.
     and_then (dict_get t ''author'' an) (\<lambda>a.
     and_then (dict_get t ''rating'' JNull) (\<lambda>r.
     and_then (dict_get t ''source'' JNull) (\<lambda>src.
     and_then (v_str q) (\<lambda>q'.
     and_then (v_str a) (\<lambda>a'.
     and_then (v_opt_float r) (\<lambda>r'.
     and_then (v_opt_str src) (\<lambda>src'.
       Inr \<lparr>quote = q', author = a', t_rating = r', t_source = src', date = None\<rparr>))))))))))"

fun parse_testimonials :: "json list \<Rightarrow> Testimonial list \<Rightarrow> error + Testimonial list" where
  "parse_testimonials [] acc = Inr acc"
| "parse_testimonials (t # rest) acc =
     (if is_dict t then
        and_then (testimonial_of_dict t) (\<lambda>tv. parse_testimonials rest (acc @ [tv]))
      else parse_testimonials rest acc)"

definition parse_contact :: "json \<Rightarrow> error + ContactInfo" where
  "parse_contact c =
     and_then (dict_get c ''phone'' JNull) (\<lambda>p.
     and_then (dict_get c ''email'' JNull) (\<lambda>e.
     and_then (dict_get c ''address'' JNull) (\<lambda>a.
     and_then (dict_get c ''website'' JNull) (\<lambda>w.
     and_then (v_opt_str p) (\<lambda>p'.
     and_then (v_opt_str e) (\<lambda>e'.
     and_then (v_opt_str a) (\<lambda>a'.
     and_then (v_opt_str w) (\<lambda>w'.
       Inr \<lparr>phone = p', email = e', address = a', website = w'\<rparr>))))))))"

definition parse_social :: "json \<Rightarrow> error + SocialMedia" where
  "parse_social c =
     and_then (dict_get c ''facebook'' JNull) (\<lambda>f.
     and_then (dict_get c ''instagram'' JNull) (\<lambda>i.
     and_then (dict_get c ''twitter'' JNull) (\<lambda>t.
     and_then (dict_get c ''linkedin'' JNull) (\<lambda>l.
     and_then (v_opt_str f) (\<lambda>f'.
     and_then (v_opt_str i) (\<lambda>i'.
     and_then (v_opt_str t) (\<lambda>t'.
     and_then (v_opt_str l) (\<lambda>l'.
       Inr \<lparr>facebook = f', instagram = i', twitter = t', linkedin = l', youtube = None\<rparr>))))))))"

text \<open>\<^verbatim>\<open>BusinessHours(**hours_data) if hours_data else None\<close>: a truthy value that is
  not a dict cannot be unpacked; keys that are no field are ignored.\<close>

definition parse_hours :: "json \<Rightarrow> error + BusinessHours option" where
  "parse_hours h =
     (if \<not> truthy h then Inr None
      else if \<not> is_dict h then Inl (Exception ''TypeError'')
      else
        and_then (and_then (dict_get h ''monday'' JNull) v_opt_str) (\<lambda>mo.
        and_then (and_then (dict_get h ''tuesday'' JNull) v_opt_str) (\<lambda>tu.
        and_then (and_then (dict_get h ''wednesday'' JNull) v_opt_str) (\<lambda>we.
        and_then (and_then (dict_get h ''thursday'' JNull) v_opt_str) (\<lambda>th.
        and_then (and_then (dict_get h ''friday'' JNull) v_opt_str) (\<lambda>fr.
        and_then (and_then (dict_get h ''saturday'' JNull) v_opt_str) (\<lambda>sa.
        and_then (and_then (dict_get h ''sunday'' JNull) v_opt_str) (\<lambda>su.
          Inr (Some \<lparr>monday = mo, tuesday = tu, wednesday = we, thursday = th,
                      friday = fr, saturday = sa, sunday = su\<rparr>)))))))))"

text \<open>The optional text attributes are stored as \<open>json\<close> (see the record).\<close>

definition opt_str_json :: "string option \<Rightarrow> json" where
  "opt_str_json v = (case v of None \<Rightarrow> JNull | Some s \<Rightarrow> JStr s)"

definition to_business_data :: "json \<Rightarrow> ScrapeResult \<Rightarrow> error + ExtractedBusinessData" where
  "to_business_data extracted sr =
     and_then (dict_get extracted ''business_type'' JNull) (\<lambda>bt.
     let btype = (if truthy bt
                  then (case business_type_of bt of Some t \<Rightarrow> t | None \<Rightarrow> GENERAL)
                  else GENERAL) in
     and_then (and_then (dict_get extracted ''services'' (JArr [])) py_iter) (\<lambda>ss.
     and_then (parse_services ss []) (\<lambda>svcs.
     and_then (and_then (dict_get extracted ''testimonials'' (JArr [])) py_iter) (\<lambda>ts.
     and_then (parse_testimonials ts []) (\<lambda>tms.
     and_then (and_then (dict_get extracted ''contact'' (JObj [])) parse_contact) (\<lambda>ct.
     and_then (and_then (dict_get extracted ''social_media'' (JObj [])) parse_social) (\<lambda>sm.
     and_then (and_then (dict_get extracted ''hours'' (JObj [])) parse_hours) (\<lambda>hrs.
     and_then (and_then (dict_get extracted ''business_name'' (JStr ''Business'')) v_str) (\<lambda>nm.
     and_then (and_then (dict_get extracted ''tagline'' JNull) v_opt_str) (\<lambda>tg.
     and_then (and_then (dict_get extracted ''description_short'' JNull) v_opt_str) (\<lambda>ds.
     and_then (and_then (dict_get extracted ''description_long'' JNull) v_opt_str) (\<lambda>dl.
     and_then (and_then (dict_get extracted ''year_established'' JNull) v_opt_str) (\<lambda>ye.
     and_then (and_then (dict_get extracted ''unique_selling_points'' (JArr [])) v_str_list) (\<lambda>usps.
     and_then (and_then (dict_get extracted ''rating'' JNull) v_opt_float) (\<lambda>rt.
     and_then (and_then (dict_get extracted ''review_count'' JNull) v_opt_int) (\<lambda>rc.
     and_then (and_then (dict_get extracted ''data_quality_score'' (JNum 50)) v_int) (\<lambda>score.
     and_then (and_then (dict_get extracted ''sources_used''
                          (JArr (map (\<lambda>kv. JStr (fst kv)) (raw_data sr))))
                 v_str_list) (\<lambda>used.
     and_then (and_then (dict_get extracted ''missing_fields'' (JArr [])) v_str_list) (\<lambda>missing.
       Inr \<lparr>ebd_name = nm, tagline = opt_str_json tg, description_short = opt_str_json ds,
            description_long = opt_str_json dl, business_type = btype, year_established = ye,
            services = svcs, unique_selling_points = JArr (map JStr usps), contact = ct,
            social_media = sm, hours = hrs, testimonials = tms, rating = rt,
            review_count = rc, images = [], logo_url = None, data_quality_score = score,
            sources_used = used, missing_fields = missing\<rparr>)))))))))))))))))))"

subsection \<open>\<^verbatim>\<open>_merge_gap_data\<close>\<close>

text \<open>
  Truthiness of \<^verbatim>\<open>getattr(data, f, None)\<close>. For a field name it is the truthiness of
  the field's value (a nested model and an enum member are always truthy). A name that
  is no field is looked up among the other attributes every model instance carries
  (its methods); \<open>other_attr\<close> says which names those are, and a name that is no
  attribute at all gives the default \<^verbatim>\<open>None\<close>.
\<close>

definition attr_truthy :: "(string \<Rightarrow> bool) \<Rightarrow> ExtractedBusinessData \<Rightarrow> string \<Rightarrow> bool" where
  "attr_truthy other_attr d f =
     (if f = ''business_name'' then ebd_name d \<noteq> []
      else if f = ''tagline'' then truthy (tagline d)
      else if f = ''description_short'' then truthy (description_short d)
      else if f = ''description_long'' then truthy (description_long d)
      else if f = ''business_type'' then True
      else if f = ''year_established'' then truthy_str (year_established d)
      else if f = ''services'' then services d \<noteq> []
      else if f = ''unique_selling_points'' then truthy (unique_selling_points d)
      else if f = ''contact'' then True
      else if f = ''social_media'' then True
      else if f = ''hours'' then hours d \<noteq> None
      else if f = ''testimonials'' then testimonials d \<noteq> []
      else if f = ''rating'' then (case rating d of None \<Rightarrow> False | Some r \<Rightarrow> r \<noteq> 0)
      else if f = ''review_count'' then (case review_count d of None \<Rightarrow> False | Some n \<Rightarrow> n \<noteq> 0)
      else if f = ''images'' then images d \<noteq> []
      else if f = ''logo_url'' then truthy_str (logo_url d)
      else if f = ''data_quality_score'' then data_quality_score d \<noteq> 0
      else if f = ''sources_used'' then sources_used d \<noteq> []
      else if f = ''missing_fields'' then missing_fields d \<noteq> []
      else other_attr f)"

text \<open>The list comprehension that builds \<^verbatim>\<open>gap_services\<close>: dict items only.\<close>

fun gap_services :: "json list \<Rightarrow> error + Service list" where
  "gap_services [] = Inr []"
| "gap_services (s # rest) =
     (if is_dict s then
        and_then (service_of_dict s) (\<lambda>sv.
        and_then (gap_services rest) (\<lambda>svs. Inr (sv # svs)))
      else gap_services rest)"

text \<open>\<open>if gap_data.get(k) and not data.<k>: data.<k> = gap_data[k]\<close> for one of the three
  text attributes; \<open>g\<close> is the value of \<^verbatim>\<open>gap_data.get(k)\<close>.\<close>

definition fill_tagline :: "json \<Rightarrow> ExtractedBusinessData \<Rightarrow> ExtractedBusinessData" where
  "fill_tagline g d = (if truthy g \<and> \<not> truthy (tagline d) then d\<lparr>tagline := g\<rparr> else d)"

definition fill_description_short :: "json \<Rightarrow> ExtractedBusinessData \<Rightarrow> ExtractedBusinessData" where
  "fill_description_short g d =
     (if truthy g \<and> \<not> truthy (description_short d) then d\<lparr>description_short := g\<rparr> else d)"

definition fill_description_long :: "json \<Rightarrow> ExtractedBusinessData \<Rightarrow> ExtractedBusinessData" where
  "fill_description_long g d =
     (if truthy g \<and> \<not> truthy (description_long d) then d\<lparr>description_long := g\<rparr> else d)"

definition fill_usps :: "json \<Rightarrow> ExtractedBusinessData \<Rightarrow> ExtractedBusinessData" where
  "fill_usps g d =
     (if truthy g \<and> \<not> truthy (unique_selling_points d)
      then d\<lparr>unique_selling_points := g\<rparr> else d)"

text \<open>The last two assignments: the score first, then \<open>missing_fields\<close>, filtered against
  the object as it is by then.\<close>

definition recalculate :: "(string \<Rightarrow> bool) \<Rightarrow> ExtractedBusinessData \<Rightarrow> ExtractedBusinessData" where
  "recalculate other_attr d =
     (let d1 = d\<lparr>data_quality_score := min 100 (data_quality_score d + 15)\<rparr>
      in d1\<lparr>missing_fields := filter (attr_truthy other_attr d1) (missing_fields d1)\<rparr>)"

text \<open>
  The function mutates \<open>data\<close> in place, so an exception leaves the object as the
  assignments before it made it. The result is the raised exception, if any, and the
  object at that point.
\<close>

definition merge_gap_data ::
  "(string \<Rightarrow> bool) \<Rightarrow> ExtractedBusinessData \<Rightarrow> json \<Rightarrow> error option \<times> ExtractedBusinessData" where
  "merge_gap_data other_attr d gap_data =
     (if \<not> is_dict gap_data then (Some (Exception ''AttributeError''), d)
      else
        let g = (\<lambda>k. case dict_get gap_data k JNull of Inr v \<Rightarrow> v | Inl e \<Rightarrow> JNull);
            d1 = fill_tagline (g ''tagline'') d;
            d2 = fill_description_short (g ''description_short'') d1;
            d3 = fill_description_long (g ''description_long'') d2
        in if truthy (g ''services'') then
             (case and_then (py_iter (g ''services'')) gap_services of
                Inl e \<Rightarrow> (Some e, d3)
              | Inr gs \<Rightarrow>
                  let d4 = (if length gs > length (services d3) then d3\<lparr>services := gs\<rparr> else d3)
                  in (None, recalculate other_attr (fill_usps (g ''unique_selling_points'') d4)))
           else (None, recalculate other_attr (fill_usps (g ''unique_selling_points'') d3)))"

subsection \<open>The model client and the two operations\<close>

text \<open>
  The remote model is outside the program. \<open>replies\<close> are the outcomes of the calls
  still to come, each the text of \<^verbatim>\<open>response.content[0].text\<close> or the exception that
  \<^verbatim>\<open>messages.create\<close> or that access raises; \<open>calls\<close> counts the calls issued. With
  no outcome left the call raises.
\<close>

record ai_client =
  replies :: "(error + string) list"
  calls :: nat

definition messages_create :: "ai_client \<Rightarrow> (error + string) \<times> ai_client" where
  "messages_create c =
     (case replies c of
        [] \<Rightarrow> (Inl (Exception ''APIConnectionError''), c\<lparr>calls := calls c + 1\<rparr>)
      | r # rs \<Rightarrow> (r, c\<lparr>replies := rs, calls := calls c + 1\<rparr>))"

text \<open>\<^verbatim>\<open>ExtractedBusinessData(business_name=..., data_quality_score=0,
  missing_fields=["all"])\<close>: every other field at its default.\<close>

definition minimal_profile :: "string \<Rightarrow> ExtractedBusinessData" where
  "minimal_profile nm =
     \<lparr>ebd_name = nm, tagline = JNull, description_short = JNull, description_long = JNull,
      business_type = GENERAL, year_established = None, services = [],
      unique_selling_points = JArr [], contact = default_contact,
      social_media = default_social, hours = None, testimonials = [], rating = None,
      review_count = None, images = [], logo_url = None, data_quality_score = 0,
      sources_used = [], missing_fields = [''all'']\<rparr>"

text \<open>
  The prompt is built from the arguments by string formatting and decides nothing
  below; the reply comes from the client. The result is the profile, the client after
  the call and the caller's state after the progress reports.
\<close>

definition extract_business_data ::
  "(string \<Rightarrow> json option) \<Rightarrow> ai_client \<Rightarrow> ScrapeResult \<Rightarrow> string \<Rightarrow> 'w progress_cb option \<Rightarrow> 'w
   \<Rightarrow> ExtractedBusinessData \<times> ai_client \<times> 'w" where
  "extract_business_data loads client sr nm on_progress w =
     (let w1 = report on_progress ''extracting'' ''Analyzing scraped data with AI...'' 40 w;
          (reply, client1) = messages_create client
      in case reply of
           Inl e \<Rightarrow> (minimal_profile nm, client1, w1)
         | Inr content \<Rightarrow>
             (let extracted = parse_json_response loads content;
                  w2 = report on_progress ''extracting'' ''Data extracted successfully'' 50 w1
              in case to_business_data extracted sr of
                   Inl e \<Rightarrow> (minimal_profile nm, client1, w2)
                 | Inr d \<Rightarrow> (d, client1, w2)))"

definition fill_gaps ::
  "(string \<Rightarrow> json option) \<Rightarrow> (string \<Rightarrow> bool) \<Rightarrow> ai_client \<Rightarrow> ExtractedBusinessData \<Rightarrow>
   'w progress_cb option \<Rightarrow> 'w \<Rightarrow> ExtractedBusinessData \<times> ai_client \<times> 'w" where
  "fill_gaps loads other_attr client d on_progress w =
     (if data_quality_score d \<ge> 70 \<and> missing_fields d = [] then (d, client, w)
      else
        let w1 = report on_progress ''extracting'' ''Filling data gaps with AI...'' 55 w;
            (reply, client1) = messages_create client
        in case reply of
             Inl e \<Rightarrow> (d, client1, w1)
           | Inr content \<Rightarrow>
               (case merge_gap_data other_attr d (parse_json_response loads content) of
                  (Some e, d') \<Rightarrow> (d', client1, w1)
                | (None, d') \<Rightarrow>
                    (d', client1, report on_progress ''extracting'' ''Data gaps filled'' 60 w1)))"

section \<open>Site generator (app/services/website_generator.py)\<close>

text \<open>\<^verbatim>\<open>xs.insert(i, x)\<close>.\<close>

definition list_insert :: "nat \<Rightarrow> 'a \<Rightarrow> 'a list \<Rightarrow> 'a list" where
  "list_insert i x xs = take i xs @ [x] @ drop i xs"

definition determine_sections :: "ExtractedBusinessData \<Rightarrow> string list" where
  "determine_sections d =
     (let s0 = [''navigation'', ''hero'', ''services'', ''about'', ''contact'', ''footer''];
          s1 = (if testimonials d \<noteq> [] then list_insert 4 ''testimonials'' s0 else s0)
      in if truthy (unique_selling_points d) then list_insert 2 ''features'' s1 else s1)"

text \<open>The clean-up of markdown fences around the generated page.\<close>

definition strip_fences :: "string \<Rightarrow> string" where
  "strip_fences page =
     (if contains (fence @ ''html'') page then cut_fenced (fence @ ''html'') 7 page
      else if contains fence page then cut_fenced fence 3 page
      else page)"

text \<open>
  \<^verbatim>\<open>_build_generation_prompt\<close> formats the profile into text. Its one failure is in
  \<^verbatim>\<open>_generate_usps_html\<close>, which iterates \<open>unique_selling_points\<close> when that is truthy.
  The text itself decides nothing below.
\<close>

definition build_generation_prompt :: "ExtractedBusinessData \<Rightarrow> error + unit" where
  "build_generation_prompt d =
     (if truthy (unique_selling_points d)
      then and_then (py_iter (unique_selling_points d)) (\<lambda>items. Inr ())
      else Inr ())"

definition generate_with_claude :: "ai_client \<Rightarrow> ExtractedBusinessData \<Rightarrow> (error + string) \<times> ai_client" where
  "generate_with_claude client d =
     (case build_generation_prompt d of
        Inl e \<Rightarrow> (Inl e, client)
      | Inr u \<Rightarrow>
          (let (reply, client1) = messages_create client
           in case reply of
                Inl e \<Rightarrow> (Inl e, client1)
              | Inr page \<Rightarrow> (Inr (strip_fences page), client1)))"

definition generate_with_21st_dev :: "ai_client \<Rightarrow> ExtractedBusinessData \<Rightarrow> (error + string) \<times> ai_client" where
  "generate_with_21st_dev client d =
     (let (reply, client1) = messages_create client
      in case reply of
           Inl e \<Rightarrow> generate_with_claude client1 d
         | Inr page \<Rightarrow> (Inr (strip_fences page), client1))"

text \<open>\<open>key\<close> is \<^verbatim>\<open>settings.twentyfirst_api_key\<close>; \<open>elapsed\<close> is the measured wall-clock
  time in milliseconds.\<close>

definition generate ::
  "string option \<Rightarrow> int \<Rightarrow> ai_client \<Rightarrow> ExtractedBusinessData \<Rightarrow> 'w progress_cb option \<Rightarrow> 'w
   \<Rightarrow> (error + GeneratedSite) \<times> ai_client \<times> 'w" where
  "generate key elapsed client d on_progress w =
     (let w1 = report on_progress ''generating'' ''Generating website design...'' 65 w;
          secs = determine_sections d;
          (r, client1) = (if truthy_str key then generate_with_21st_dev client d
                          else generate_with_claude client d)
      in case r of
           Inl e \<Rightarrow> (Inl e, client1, w1)
         | Inr page \<Rightarrow>
             (let w2 = report on_progress ''generating'' ''Website generated!'' 90 w1
              in (Inr \<lparr>html = page, css = None, js = None, assets = [],
                       template_used = (if truthy_str key then ''21st_dev'' else ''tailwind_modern''),
                       sections_included = secs, generation_time_ms = elapsed\<rparr>,
                  client1, w2)))"

section \<open>Orchestrator (app/services/orchestrator.py)\<close>

record OrchestrationResult =
  res_scrape_result :: ScrapeResult
  res_extracted_data :: ExtractedBusinessData
  res_generated_site :: GeneratedSite

text \<open>What a pipeline run takes from outside the program.\<close>

record pipeline_env =
  remote :: remote_sources
  json_loads :: "string \<Rightarrow> json option"
  other_attr :: "string \<Rightarrow> bool"
  twentyfirst_api_key :: "string option"
  elapsed_ms :: int

text \<open>With no callback given, \<^verbatim>\<open>run\<close> installs one that only logs.\<close>

definition run ::
  "pipeline_env \<Rightarrow> ai_client \<Rightarrow> JobCreateRequest \<Rightarrow> 'w progress_cb option \<Rightarrow> 'w
   \<Rightarrow> (error + OrchestrationResult) \<times> ai_client \<times> 'w" where
  "run env client req on_progress w =
     (let cb = (case on_progress of None \<Rightarrow> (\<lambda>stg msg pct w'. w') | Some f \<Rightarrow> f);
          w1 = cb ''scraping'' ''Starting data collection...'' 5 w;
          (sr, w2) = scrape_all (remote env) req (Some cb) w1;
          w3 = cb ''extracting'' ''Analyzing data with AI...'' 35 w2;
          (ed, client1, w4) =
             extract_business_data (json_loads env) client sr (business_name req) (Some cb) w3;
          (ed', client2, w5) =
             (if data_quality_score ed < 70 \<or> missing_fields ed \<noteq> [] then
                fill_gaps (json_loads env) (other_attr env) client1 ed (Some cb)
                  (cb ''extracting'' ''Enhancing data...'' 55 w4)
              else (ed, client1, w4));
          w6 = cb ''generating'' ''Creating website design...'' 65 w5;
          (g, client3, w7) = generate (twentyfirst_api_key env) (elapsed_ms env) client2 ed' (Some cb) w6
      in case g of
           Inl e \<Rightarrow> (Inl e, client3, w7)
         | Inr site \<Rightarrow>
             (Inr \<lparr>res_scrape_result = sr, res_extracted_data = ed', res_generated_site = site\<rparr>,
              client3, cb ''completed'' ''Website ready!'' 100 w7))"

section \<open>Deployer (app/services/deployer.py)\<close>

text \<open>
  An HTTP exchange either raises (a transport error) or gives a response. \<open>body\<close>
  is what \<^verbatim>\<open>response.json()\<close> returns, \<open>None\<close> when the body is no JSON and the
  call raises.
\<close>

record http_response =
  status_code :: nat
  body :: "json option"
  text_of :: string

definition response_json :: "http_response \<Rightarrow> error + json" where
  "response_json r = (case body r of None \<Rightarrow> Inl (Exception ''JSONDecodeError'') | Some v \<Rightarrow> Inr v)"

text \<open>
  The hosting API as the deployer meets it: the outcome of each request it can send,
  the status poll by attempt number. \<open>py_str\<close> is Python's \<^verbatim>\<open>str()\<close> of a value that
  is not a string, as an f-string prints it.
\<close>

record vercel_env =
  create_project_reply :: "error + http_response"
  get_project_reply :: "error + http_response"
  create_deployment_reply :: "error + http_response"
  poll_reply :: "nat \<Rightarrow> error + http_response"
  add_domain_reply :: "error + http_response"
  py_str :: "json \<Rightarrow> string"

definition format :: "vercel_env \<Rightarrow> json \<Rightarrow> string" where
  "format env v = (case v of JStr s \<Rightarrow> s | _ \<Rightarrow> py_str env v)"

text \<open>\<^verbatim>\<open>x[key]\<close> for a string key.\<close>

fun dict_index :: "json \<Rightarrow> string \<Rightarrow> error + json" where
  "dict_index (JObj kvs) k =
     (case map_of kvs k of Some v \<Rightarrow> Inr v | None \<Rightarrow> Inl (Exception ''KeyError''))"
| "dict_index _ k = Inl (Exception ''TypeError'')"

subsection \<open>\<^verbatim>\<open>_slugify\<close> (on ASCII text)\<close>

definition lower_char :: "char \<Rightarrow> char" where
  "lower_char c =
     (if 65 \<le> (of_char c :: nat) \<and> (of_char c :: nat) \<le> 90 then char_of (of_char c + 32 :: nat) else c)"

definition is_slug_char :: "char \<Rightarrow> bool" where
  "is_slug_char c =
     ((97 \<le> (of_char c :: nat) \<and> (of_char c :: nat) \<le> 122) \<or>
      (48 \<le> (of_char c :: nat) \<and> (of_char c :: nat) \<le> 57))"

text \<open>\<^verbatim>\<open>re.sub(r"[^a-z0-9]+", "-", slug)\<close>; \<open>in_run\<close> says that the run of other
  characters being read has been replaced already.\<close>

fun collapse_runs :: "bool \<Rightarrow> string \<Rightarrow> string" where
  "collapse_runs in_run [] = []"
| "collapse_runs in_run (c # cs) =
     (if is_slug_char c then c # collapse_runs False cs
      else if in_run then collapse_runs True cs
      else CHR ''-'' # collapse_runs True cs)"

text \<open>\<^verbatim>\<open>re.sub(r"^-|-$", "", slug)\<close>: one hyphen off the front, one off the end.\<close>

definition trim_hyphens :: "string \<Rightarrow> string" where
  "trim_hyphens s =
     (let s1 = (case s of [] \<Rightarrow> [] | c # cs \<Rightarrow> if c = CHR ''-'' then cs else s)
      in if s1 \<noteq> [] \<and> last s1 = CHR ''-'' then butlast s1 else s1)"

definition slugify :: "string \<Rightarrow> string" where
  "slugify nm = take 50 (trim_hyphens (collapse_runs False (map lower_char nm)))"

subsection \<open>The requests\<close>

text \<open>Each function returns its result and the number of requests it sent.\<close>

definition ensure_project :: "vercel_env \<Rightarrow> string \<Rightarrow> (error + json) \<times> nat" where
  "ensure_project env slug =
     (case create_project_reply env of
        Inl e \<Rightarrow> (Inl e, 1)
      | Inr resp \<Rightarrow>
          (case response_json resp of
             Inl e \<Rightarrow> (Inl e, 1)
           | Inr d \<Rightarrow>
               if status_code resp = 200 then
                 (and_then (dict_get d ''id'' JNull) (\<lambda>logged. dict_index d ''id''), 1)
               else
                 (case and_then (dict_get d ''error'' (JObj [])) (\<lambda>err. dict_get err ''code'' JNull) of
                    Inl e \<Rightarrow> (Inl e, 1)
                  | Inr code \<Rightarrow>
                      if code = JStr ''project_already_exists'' then
                        (case get_project_reply env of
                           Inl e \<Rightarrow> (Inl e, 2)
                         | Inr resp2 \<Rightarrow>
                             if status_code resp2 = 200 then
                               (and_then (response_json resp2) (\<lambda>pd.
                                and_then (dict_get pd ''id'' JNull) (\<lambda>logged. dict_index pd ''id'')), 2)
                             else (Inr (JStr slug), 2))
                      else (Inr (JStr slug), 1))))"

text \<open>\<^verbatim>\<open>_prepare_files\<close> hashes and encodes four fixed files; it cannot fail and only
  feeds the request body, so it is left out.\<close>

definition create_deployment :: "vercel_env \<Rightarrow> (error + json) \<times> nat" where
  "create_deployment env =
     (case create_deployment_reply env of
        Inl e \<Rightarrow> (Inl e, 1)
      | Inr resp \<Rightarrow>
          if status_code resp \<noteq> 200 \<and> status_code resp \<noteq> 201 then
            (and_then (response_json resp) (\<lambda>err.
               Inl (Exception (''Deployment failed: '' @ format env err))), 1)
          else (response_json resp, 1))"

text \<open>The polling loop: \<open>attempt\<close> is the loop variable, the last argument the number of
  attempts left (\<open>max_attempts\<close> at the call).\<close>

fun wait_for_ready :: "vercel_env \<Rightarrow> nat \<Rightarrow> nat \<Rightarrow> (error + json) \<times> nat" where
  "wait_for_ready env attempt 0 = (Inl (Exception ''Deployment timed out''), 0)"
| "wait_for_ready env attempt (Suc k) =
     (case poll_reply env attempt of
        Inl e \<Rightarrow> (Inl e, 1)
      | Inr resp \<Rightarrow>
          if status_code resp \<noteq> 200 then
            (Inl (Exception (''Failed to check deployment status: '' @ text_of resp)), 1)
          else
            (case response_json resp of
               Inl e \<Rightarrow> (Inl e, 1)
             | Inr d \<Rightarrow>
                 (case dict_get d ''readyState'' JNull of
                    Inl e \<Rightarrow> (Inl e, 1)
                  | Inr state \<Rightarrow>
                      if state = JStr ''READY'' then (Inr d, 1)
                      else if state = JStr ''ERROR'' then
                        (and_then (dict_get d ''errorMessage'' (JStr ''Unknown error'')) (\<lambda>m.
                           Inl (Exception (''Deployment failed: '' @ format env m))), 1)
                      else (let (r, n) = wait_for_ready env (Suc attempt) k in (r, Suc n)))))"

definition dns_instructions :: "(string \<times> string) list list" where
  "dns_instructions =
     [[(''type'', ''A''), (''name'', ''@''), (''value'', ''76.76.21.21'')],
      [(''type'', ''CNAME''), (''name'', ''www''), (''value'', ''cname.vercel-dns.com'')]]"

definition configure_domain :: "vercel_env \<Rightarrow> (error + (string \<times> string) list list option) \<times> nat" where
  "configure_domain env =
     (case add_domain_reply env of
        Inl e \<Rightarrow> (Inl e, 1)
      | Inr resp \<Rightarrow>
          (case response_json resp of
             Inl e \<Rightarrow> (Inl e, 1)
           | Inr d \<Rightarrow>
               if status_code resp \<noteq> 200 \<and> status_code resp \<noteq> 201 then (Inr None, 1)
               else (Inr (Some dns_instructions), 1)))"

text \<open>The construction of the result from the last poll's data.\<close>

definition deployment_result ::
  "vercel_env \<Rightarrow> string \<Rightarrow> json \<Rightarrow> (string \<times> string) list list option \<Rightarrow> error + DeploymentResult" where
  "deployment_result env slug dep dns =
     and_then (dict_index dep ''id'') (\<lambda>i.
     and_then (dict_get dep ''url'' (JStr [])) (\<lambda>u.
     and_then (dict_get dep ''readyState'' (JStr ''READY'')) (\<lambda>rs.
     and_then (v_str i) (\<lambda>i'.
     and_then (v_str rs) (\<lambda>rs'.
       Inr \<lparr>deployment_id = i', url = ''https://'' @ format env u,
            production_url = ''https://'' @ slug @ ''.vercel.app'',
            deploy_status = rs', dns_records = dns\<rparr>)))))"

definition deploy ::
  "vercel_env \<Rightarrow> string \<Rightarrow> string \<Rightarrow> string option \<Rightarrow> (error + DeploymentResult) \<times> nat" where
  "deploy env page project_name domain =
     (let slug = slugify project_name;
          (p, n1) = ensure_project env slug
      in case p of
           Inl e \<Rightarrow> (Inl e, n1)
         | Inr project_id \<Rightarrow>
             (let (c, n2) = create_deployment env
              in case and_then c (\<lambda>dep. dict_index dep ''id'') of
                   Inl e \<Rightarrow> (Inl e, n1 + n2)
                 | Inr dep_id \<Rightarrow>
                     (let (r, n3) = wait_for_ready env 0 60
                      in case r of
                           Inl e \<Rightarrow> (Inl e, n1 + n2 + n3)
                         | Inr dep \<Rightarrow>
                             if truthy_str domain then
                               (let (dn, n4) = configure_domain env
                                in case dn of
                                     Inl e \<Rightarrow> (Inl e, n1 + n2 + n3 + n4)
                                   | Inr dns \<Rightarrow>
                                       (deployment_result env slug dep dns, n1 + n2 + n3 + n4))
                             else (deployment_result env slug dep None, n1 + n2 + n3))))"

section \<open>Application (app/main.py)\<close>

text \<open>
  The process state: the job store, the clock that \<^verbatim>\<open>datetime.utcnow()\<close> reads, the
  snapshots handed to \<^verbatim>\<open>notify_job_update\<close> (oldest first), and the number of requests
  sent to the hosting API.
\<close>

record app_state =
  job_store :: JobStore
  clock :: nat
  pushed :: "Job list"
  remote_calls :: nat

definition initial_state :: app_state where
  "initial_state = \<lparr>job_store = JobStore_init, clock = 0, pushed = [], remote_calls = 0\<rparr>"

text \<open>A reading of the clock; time moves on between two readings.\<close>

definition utcnow :: "app_state \<Rightarrow> nat \<times> app_state" where
  "utcnow st = (clock st, st\<lparr>clock := clock st + 1\<rparr>)"

definition notify_job_update :: "Job \<Rightarrow> app_state \<Rightarrow> app_state" where
  "notify_job_update j st = st\<lparr>pushed := pushed st @ [j]\<rparr>"

text \<open>\<^verbatim>\<open>await job_store.update(job)\<close> followed by \<^verbatim>\<open>await notify_job_update(job_id, job)\<close>.\<close>

definition store_and_notify :: "Job \<Rightarrow> app_state \<Rightarrow> Job \<times> app_state" where
  "store_and_notify j st =
     (let (now, st1) = utcnow st;
          (j1, jobs1) = update now (job_store st1) j;
          st2 = st1\<lparr>job_store := jobs1\<rparr>
      in (j1, notify_job_update j1 st2))"

text \<open>
  The closure \<^verbatim>\<open>on_progress\<close> of \<^verbatim>\<open>process_job\<close>. It acts on the job object the
  task holds and on the process state.
\<close>

definition on_progress_cb :: "(Job \<times> app_state) progress_cb" where
  "on_progress_cb stg msg pct w =
     (let (j, st) = w;
          (t, st1) = utcnow st;
          j1 = j\<lparr>current_stage := Some stg,
                 progress := progress j @
                   [\<lparr>stage = stg, message = msg, progress_percent = pct, timestamp = t\<rparr>]\<rparr>;
          (now, st2) = utcnow st1;
          j2 = j1\<lparr>updated_at := now\<rparr>
      in store_and_notify j2 st2)"

definition process_job :: "pipeline_env \<Rightarrow> ai_client \<Rightarrow> string \<Rightarrow> app_state \<Rightarrow> app_state" where
  "process_job env client jid st =
     (case get (job_store st) jid of
        None \<Rightarrow> st
      | Some j \<Rightarrow>
          (let (r, client1, (j1, st1)) = run env client (request j) (Some on_progress_cb) (j, st);
               (j3, st3) =
                 (case r of
                    Inr res \<Rightarrow>
                      (let (now, st2) = utcnow st1;
                           j2 = j1\<lparr>scrape_result := Some (res_scrape_result res),
                                  extracted_data := Some (res_extracted_data res),
                                  generated_site := Some (res_generated_site res),
                                  status := COMPLETED,
                                  updated_at := now\<rparr>
                       in on_progress_cb ''completed'' ''Website generated successfully!'' 100 (j2, st2))
                  | Inl e \<Rightarrow>
                      (let (now, st2) = utcnow st1
                       in (j1\<lparr>status := FAILED, error := Some (str_error e), updated_at := now\<rparr>, st2)))
           in snd (store_and_notify j3 st3)))"

text \<open>\<open>new_id\<close> is the value of \<^verbatim>\<open>str(uuid.uuid4())\<close>. The background task is started
  by the framework after the response: it is the separate step \<open>process_job\<close>.\<close>

definition create_job :: "string \<Rightarrow> JobCreateRequest \<Rightarrow> app_state \<Rightarrow> JobResponse \<times> app_state" where
  "create_job new_id req st =
     (let (now, st1) = utcnow st;
          j = \<lparr>job_id = new_id, status = PENDING, created_at = now, updated_at = now,
               request = req, progress = [], current_stage = None, scrape_result = None,
               extracted_data = None, generated_site = None, deployment = None,
               error = None, error_details = None\<rparr>;
          (j1, jobs1) = create (job_store st1) j
      in (\<lparr>job = j, response_message = ''Job created successfully''\<rparr>, st1\<lparr>job_store := jobs1\<rparr>))"

definition get_job :: "string \<Rightarrow> app_state \<Rightarrow> error + JobResponse" where
  "get_job jid st =
     (case get (job_store st) jid of
        None \<Rightarrow> Inl (HTTPException 404 ''Job not found'')
      | Some j \<Rightarrow> Inr \<lparr>job = j, response_message = ''Success''\<rparr>)"

definition get_job_preview :: "string \<Rightarrow> app_state \<Rightarrow> error + string" where
  "get_job_preview jid st =
     (case get (job_store st) jid of
        None \<Rightarrow> Inl (HTTPException 404 ''Job not found'')
      | Some j \<Rightarrow>
          (case generated_site j of
             None \<Rightarrow> Inl (HTTPException 400 ''Website not yet generated'')
           | Some site \<Rightarrow> Inr (html site)))"

definition deploy_job ::
  "vercel_env \<Rightarrow> string \<Rightarrow> DeployRequest \<Rightarrow> app_state \<Rightarrow> (error + JobResponse) \<times> app_state" where
  "deploy_job env jid req st =
     (case get (job_store st) jid of
        None \<Rightarrow> (Inl (HTTPException 404 ''Job not found''), st)
      | Some j \<Rightarrow>
          (case generated_site j of
             None \<Rightarrow> (Inl (HTTPException 400 ''Website not yet generated''), st)
           | Some site \<Rightarrow>
               if deployment j \<noteq> None then (Inl (HTTPException 400 ''Already deployed''), st)
               else
                 (let (j1, st1) = store_and_notify (j\<lparr>status := DEPLOYING\<rparr>) st;
                      (r, n) = deploy env (html site) (business_name (request j1)) (custom_domain req);
                      st2 = st1\<lparr>remote_calls := remote_calls st1 + n\<rparr>
                  in case r of
                       Inr d \<Rightarrow>
                         (let (now, st3) = utcnow st2;
                              j2 = j1\<lparr>deployment := Some d, status := COMPLETED, updated_at := now\<rparr>;
                              (j3, st4) = store_and_notify j2 st3
                          in (Inr \<lparr>job = j3, response_message = ''Deployed successfully''\<rparr>, st4))
                     | Inl e \<Rightarrow>
                         (let j2 = j1\<lparr>status := FAILED,
                                        error := Some (''Deployment failed: '' @ str_error e)\<rparr>;
                              (j3, st3) = store_and_notify j2 st2
                          in (Inl (HTTPException 500 (str_error e)), st3)))))"

section \<open>Progress events of a run\<close>

text \<open>
  The services only ever apply the callback they are given, so what a run does to the
  caller's state is the replay of a list of events. \<open>log_cb\<close> is the callback that
  records them.
\<close>

type_synonym event = "string \<times> string \<times> int"

definition log_cb :: "event list progress_cb" where
  "log_cb stg msg pct tr = tr @ [(stg, msg, pct)]"

fun play :: "'w progress_cb \<Rightarrow> event list \<Rightarrow> 'w \<Rightarrow> 'w" where
  "play cb [] w = w"
| "play cb (e # es) w = play cb es (cb (fst e) (fst (snd e)) (snd (snd e)) w)"

definition scrape_events :: "remote_sources \<Rightarrow> JobCreateRequest \<Rightarrow> event list" where
  "scrape_events env req = snd (scrape_all env req (Some log_cb) [])"

definition extract_events ::
  "(string \<Rightarrow> json option) \<Rightarrow> ai_client \<Rightarrow> ScrapeResult \<Rightarrow> string \<Rightarrow> event list" where
  "extract_events loads client sr nm = snd (snd (extract_business_data loads client sr nm (Some log_cb) []))"

definition gap_events ::
  "(string \<Rightarrow> json option) \<Rightarrow> (string \<Rightarrow> bool) \<Rightarrow> ai_client \<Rightarrow> ExtractedBusinessData \<Rightarrow> event list" where
  "gap_events loads oa client d = snd (snd (fill_gaps loads oa client d (Some log_cb) []))"

definition generate_events ::
  "string option \<Rightarrow> int \<Rightarrow> ai_client \<Rightarrow> ExtractedBusinessData \<Rightarrow> event list" where
  "generate_events key el client d = snd (snd (generate key el client d (Some log_cb) []))"

definition run_events :: "pipeline_env \<Rightarrow> ai_client \<Rightarrow> JobCreateRequest \<Rightarrow> event list" where
  "run_events env client req = snd (snd (run env client req (Some log_cb) []))"



text \<open>Two job objects that differ at most in \<open>current_stage\<close>, \<open>progress\<close> and
  \<open>updated_at\<close>.\<close>

definition same_results :: "Job \<Rightarrow> Job \<Rightarrow> bool" where
  "same_results a b \<longleftrightarrow>
     job_id a = job_id b \<and> status a = status b \<and> request a = request b
     \<and> scrape_result a = scrape_result b \<and> extracted_data a = extracted_data b
     \<and> generated_site a = generated_site b \<and> deployment a = deployment b
     \<and> error a = error b \<and> created_at a = created_at b"



section \<open>The fan-in of the scrape stage, as the specification words it\<close>

text \<open>What the fan-in is expected to record for one source: \<open>started\<close> says that the
  request names the source, \<open>out\<close> is what its connector ends with.\<close>

definition expected_source :: "string \<Rightarrow> bool \<Rightarrow> connector_outcome \<Rightarrow> ScrapedSource" where
  "expected_source tag started out =
     (if \<not> started
      then \<lparr>source = tag, success = False, data = None, src_error = Some ''Not provided''\<rparr>
      else case out of
             Payload d \<Rightarrow> \<lparr>source = tag, success = True, data = d, src_error = None\<rparr>
           | Failure e \<Rightarrow> \<lparr>source = tag, success = False, data = None, src_error = Some e\<rparr>
           | Raises m \<Rightarrow> \<lparr>source = tag, success = False, data = None, src_error = Some m\<rparr>)"

text \<open>Its entry in \<open>raw_data\<close>: present when the connector was started, succeeded and
  read a payload that is not empty.\<close>

definition expected_raw :: "string \<Rightarrow> bool \<Rightarrow> connector_outcome \<Rightarrow> (string \<times> (string \<times> json) list) list" where
  "expected_raw tag started out =
     (case out of
        Payload (Some d) \<Rightarrow> if started \<and> d \<noteq> [] then [(tag, d)] else []
      | _ \<Rightarrow> [])"

definition entry_of :: "string \<Rightarrow> error + ScrapedSource \<Rightarrow> ScrapedSource" where
  "entry_of nm r =
     (case r of
        Inl e \<Rightarrow> \<lparr>source = nm, success = False, data = None, src_error = Some (str_error e)\<rparr>
      | Inr s \<Rightarrow> s)"

definition payload_of :: "string \<Rightarrow> error + ScrapedSource \<Rightarrow> (string \<times> (string \<times> json) list) list" where
  "payload_of nm r =
     (case r of
        Inl e \<Rightarrow> []
      | Inr s \<Rightarrow> (case data s of
                   Some d \<Rightarrow> if success s \<and> d \<noteq> [] then [(nm, d)] else []
                 | None \<Rightarrow> []))"

section \<open>Concrete inputs\<close>

definition acme_request :: JobCreateRequest where
  "acme_request =
     \<lparr>business_name = ''Acme Coffee'', location = Some ''SF'', website_url = None,
      facebook_url = None, instagram_url = None, client_email = None,
      template_preference = None\<rparr>"

definition acme_job :: Job where
  "acme_job = job (fst (create_job ''job-1'' acme_request initial_state))"

text \<open>A second job object that carries the same id.\<close>

definition acme_job_again :: Job where
  "acme_job_again = acme_job\<lparr>created_at := 7, updated_at := 7, current_stage := Some ''scraping''\<rparr>"

text \<open>A parser that rejects every text, and one that reads the empty object only; either
  agrees with \<^verbatim>\<open>json.loads\<close> on the texts it is used with below.\<close>

definition loads_nothing :: "string \<Rightarrow> json option" where
  "loads_nothing s = None"

definition loads_empty_object :: "string \<Rightarrow> json option" where
  "loads_empty_object s = (if s = ''{}'' then Some (JObj []) else None)"

definition complete_profile :: ExtractedBusinessData where
  "complete_profile = (minimal_profile ''Acme Coffee'')\<lparr>data_quality_score := 85, missing_fields := []\<rparr>"

definition weak_profile :: ExtractedBusinessData where
  "weak_profile = (minimal_profile ''Acme Coffee'')\<lparr>data_quality_score := 90, missing_fields := [''email'']\<rparr>"

definition one_reply :: "string \<Rightarrow> ai_client" where
  "one_reply s = \<lparr>replies = [Inr s], calls = 0\<rparr>"

text \<open>A run in which Google answers, the model's three replies arrive and the last one is
  the page.\<close>

definition quiet_sources :: remote_sources where
  "quiet_sources =
     \<lparr>google_outcome = Payload (Some [(''name'', JStr ''Acme Coffee'')]),
      website_outcome = Failure ''unused'', facebook_outcome = Failure ''unused'',
      instagram_outcome = Failure ''unused''\<rparr>"

definition acme_env :: pipeline_env where
  "acme_env =
     \<lparr>remote = quiet_sources, json_loads = loads_empty_object, other_attr = (\<lambda>f. False),
      twentyfirst_api_key = None, elapsed_ms = 1200\<rparr>"

definition acme_client :: ai_client where
  "acme_client = \<lparr>replies = [Inr ''{}'', Inr ''{}'', Inr ''<html></html>''], calls = 0\<rparr>"

definition acme_created :: app_state where
  "acme_created = snd (create_job ''job-1'' acme_request initial_state)"

definition acme_done :: app_state where
  "acme_done = process_job acme_env acme_client ''job-1'' acme_created"

text \<open>A request that names all four sources, and sources that end in the four ways.\<close>

definition full_request :: JobCreateRequest where
  "full_request =
     \<lparr>business_name = ''Acme Coffee'', location = Some ''SF'',
      website_url = Some ''https://acmecoffee.com/'',
      facebook_url = Some ''https://facebook.com/acmecoffee'',
      instagram_url = Some ''@acmecoffee'', client_email = None,
      template_preference = None\<rparr>"

definition mixed_sources :: remote_sources where
  "mixed_sources =
     \<lparr>google_outcome = Payload (Some [(''name'', JStr ''Acme Coffee'')]),
      website_outcome = Payload (Some []),
      facebook_outcome = Raises ''ReadTimeout'',
      instagram_outcome = Failure ''No data returned from Instagram scrape''\<rparr>"

text \<open>The hosting API: every request answered, the first poll ready.\<close>

definition ok_response :: "json \<Rightarrow> error + http_response" where
  "ok_response v = Inr \<lparr>status_code = 200, body = Some v, text_of = []\<rparr>"

definition vercel_ok :: vercel_env where
  "vercel_ok =
     \<lparr>create_project_reply = ok_response (JObj [(''id'', JStr ''prj_1'')]),
      get_project_reply = ok_response (JObj [(''id'', JStr ''prj_1'')]),
      create_deployment_reply = ok_response (JObj [(''id'', JStr ''dpl_1'')]),
      poll_reply = (\<lambda>n. ok_response (JObj [(''id'', JStr ''dpl_1''),
                                             (''readyState'', JStr ''READY''),
                                             (''url'', JStr ''acme-coffee.vercel.app'')])),
      add_domain_reply = ok_response (JObj [(''name'', JStr ''acme.example'')]),
      py_str = (\<lambda>v. ''?'')\<rparr>"

definition acme_deployment :: DeploymentResult where
  "acme_deployment =
     \<lparr>deployment_id = ''dpl_1'', url = ''https://acme-coffee.vercel.app'',
      production_url = ''https://acme-coffee.vercel.app'', deploy_status = ''READY'',
      dns_records = None\<rparr>"

text \<open>The same API when it cannot be reached at all; when the request that registers
  the domain is refused with a JSON body; and when that one request does not get
  through.\<close>

definition vercel_down :: vercel_env where
  "vercel_down = vercel_ok\<lparr>create_project_reply := Inl (Exception ''ConnectError'')\<rparr>"

definition vercel_domain_refused :: vercel_env where
  "vercel_domain_refused =
     vercel_ok\<lparr>add_domain_reply :=
       Inr \<lparr>status_code = 409,
            body = Some (JObj [(''error'', JObj [(''code'', JStr ''domain_already_in_use'')])]),
            text_of = []\<rparr>\<rparr>"

definition vercel_domain_unreachable :: vercel_env where
  "vercel_domain_unreachable = vercel_ok\<lparr>add_domain_reply := Inl (Exception ''ConnectError'')\<rparr>"

text \<open>And when that request is answered by a gateway with an error page, not JSON.\<close>

definition vercel_domain_bad_gateway :: vercel_env where
  "vercel_domain_bad_gateway =
     vercel_ok\<lparr>add_domain_reply :=
       Inr \<lparr>status_code = 502, body = None, text_of = ''<html>502 Bad Gateway</html>''\<rparr>\<rparr>"

definition no_domain :: DeployRequest where
  "no_domain = \<lparr>custom_domain = None\<rparr>"

definition with_domain :: DeployRequest where
  "with_domain = \<lparr>custom_domain = Some ''acme.example''\<rparr>"

definition acme_deployed :: app_state where
  "acme_deployed = snd (deploy_job vercel_ok ''job-1'' no_domain acme_done)"

definition acme_deploy_failed :: app_state where
  "acme_deploy_failed = snd (deploy_job vercel_down ''job-1'' no_domain acme_done)"

definition acme_retried :: app_state where
  "acme_retried = snd (deploy_job vercel_ok ''job-1'' no_domain acme_deploy_failed)"

text \<open>A profile with two fields recorded as missing, and a gap-fill reply that supplies
  one of them.\<close>

definition gappy_profile :: ExtractedBusinessData where
  "gappy_profile =
     (minimal_profile ''Acme Coffee'')\<lparr>data_quality_score := 40,
                                         missing_fields := [''tagline'', ''services'']\<rparr>"

definition tagline_reply :: json where
  "tagline_reply = JObj [(''tagline'', JStr ''Fresh coffee daily'')]"

section \<open>Job store: a duplicate id\<close>

lemma length_update_present:
  "k \<in> fst ` set al \<Longrightarrow> length (AList.update k v al) = length al"
  by (induction al) auto

lemma filter_update_distinct:
  "distinct (map fst al) \<Longrightarrow> k \<in> fst ` set al \<Longrightarrow>
   filter (\<lambda>kv. fst kv = k) (AList.update k v al) = [(k, v)]"
proof (induction al)
  case Nil
  then show ?case by simp
next
  case (Cons p ps)
  show ?case
  proof (cases "fst p = k")
    case True
    with Cons.prems have "k \<notin> fst ` set ps" by auto
    then have "filter (\<lambda>kv. fst kv = k) ps = []"
      by (auto simp: filter_empty_conv)
    with True show ?thesis by (cases p) simp
  next
    case False
    with Cons show ?thesis by (cases p) auto
  qed
qed

text \<open>
  C10. \<open>create\<close> has no error result: it returns the job it was given. When the id is
  already a key of the store (a dict, so its keys are distinct), the new record takes
  the old one's place: \<open>get\<close> returns the new job, the store holds that one record for
  the id, it has as many records as before, and every other id reads as before.
\<close>

theorem create_overwrites_duplicate:
  assumes "distinct (map fst jobs)" and "job_id j \<in> fst ` set jobs"
  shows "fst (create jobs j) = j
       \<and> get (snd (create jobs j)) (job_id j) = Some j
       \<and> records_for (snd (create jobs j)) (job_id j) = [j]
       \<and> length (snd (create jobs j)) = length jobs
       \<and> distinct (map fst (snd (create jobs j)))
       \<and> (\<forall>i. i \<noteq> job_id j \<longrightarrow> get (snd (create jobs j)) i = get jobs i)"
  using assms
  by (simp add: create_def get_def records_for_def filter_update_distinct
      update_conv' length_update_present distinct_update)

theorem create_overwrites_duplicate_witness:
  "distinct (map fst [(''job-1'', acme_job)])
   \<and> job_id acme_job_again \<in> fst ` set [(''job-1'', acme_job)]
   \<and> acme_job_again \<noteq> acme_job
   \<and> get (snd (create [(''job-1'', acme_job)] acme_job_again)) ''job-1'' = Some acme_job_again
   \<and> records_for (snd (create [(''job-1'', acme_job)] acme_job_again)) ''job-1'' = [acme_job_again]
   \<and> length (snd (create [(''job-1'', acme_job)] acme_job_again)) = 1"
proof -
  have i: "job_id acme_job_again = ''job-1''"
    by (simp add: acme_job_again_def acme_job_def create_job_def utcnow_def create_def Let_def)
  have d: "distinct (map fst [(''job-1'', acme_job)])" by simp
  have m: "job_id acme_job_again \<in> fst ` set [(''job-1'', acme_job)]" using i by simp
  have n: "acme_job_again \<noteq> acme_job"
    by (simp add: acme_job_again_def acme_job_def create_job_def utcnow_def create_def Let_def
        initial_state_def)
  show ?thesis
    using create_overwrites_duplicate [OF d m] i d m n by simp
qed

section \<open>Gap filling: the short circuit and the score\<close>

text \<open>
  C8. With a score of at least 70 and no missing field recorded, \<open>fill_gaps\<close> returns
  its input as it is, with the client untouched (no call is issued) and no progress
  reported; applying it to its own result gives the same again.
\<close>

theorem fill_gaps_short_circuit:
  assumes "data_quality_score d \<ge> 70" and "missing_fields d = []"
  shows "fill_gaps loads oa client d cb w = (d, client, w)
       \<and> fill_gaps loads oa client (fst (fill_gaps loads oa client d cb w)) cb w = (d, client, w)"
  using assms by (simp add: fill_gaps_def)

theorem fill_gaps_short_circuit_witness:
  "data_quality_score complete_profile \<ge> 70
   \<and> missing_fields complete_profile = []
   \<and> fill_gaps loads_nothing (\<lambda>f. False) (one_reply ''{}'') complete_profile None ()
       = (complete_profile, one_reply ''{}'', ())
   \<and> fill_gaps loads_nothing (\<lambda>f. False) (one_reply ''{}'')
        (fst (fill_gaps loads_nothing (\<lambda>f. False) (one_reply ''{}'') complete_profile None ()))
        None ()
       = (complete_profile, one_reply ''{}'', ())"
proof -
  have s: "data_quality_score complete_profile \<ge> 70"
    by (simp add: complete_profile_def)
  have m: "missing_fields complete_profile = []"
    by (simp add: complete_profile_def)
  show ?thesis
    using fill_gaps_short_circuit [OF s m, of loads_nothing "\<lambda>f. False" "one_reply ''{}''" None "()"] s m
    by simp
qed

lemma score_fill [simp]:
  "data_quality_score (fill_tagline g d) = data_quality_score d"
  "data_quality_score (fill_description_short g d) = data_quality_score d"
  "data_quality_score (fill_description_long g d) = data_quality_score d"
  "data_quality_score (fill_usps g d) = data_quality_score d"
  by (simp_all add: fill_tagline_def fill_description_short_def fill_description_long_def
      fill_usps_def)

lemma score_recalculate [simp]:
  "data_quality_score (recalculate oa d) = min 100 (data_quality_score d + 15)"
  by (simp add: recalculate_def Let_def)

text \<open>Wherever the merge stops, the score is the old one or the old one plus the bonus,
  capped.\<close>

lemma score_merge:
  "data_quality_score (snd (merge_gap_data oa d g)) = data_quality_score d
   \<or> data_quality_score (snd (merge_gap_data oa d g)) = min 100 (data_quality_score d + 15)"
  by (simp add: merge_gap_data_def Let_def split: sum.split)

lemma score_fill_gaps:
  "data_quality_score (fst (fill_gaps loads oa client d cb w)) = data_quality_score d
   \<or> data_quality_score (fst (fill_gaps loads oa client d cb w))
       = min 100 (data_quality_score d + 15)"
proof (cases "data_quality_score d \<ge> 70 \<and> missing_fields d = []")
  case True
  then show ?thesis by (simp add: fill_gaps_def)
next
  case False
  obtain reply client1 where mc: "messages_create client = (reply, client1)"
    by (cases "messages_create client")
  show ?thesis
  proof (cases reply)
    case (Inl e)
    with False mc show ?thesis by (simp add: fill_gaps_def Let_def)
  next
    case (Inr content)
    obtain e d' where m: "merge_gap_data oa d (parse_json_response loads content) = (e, d')"
      by (cases "merge_gap_data oa d (parse_json_response loads content)")
    have "fst (fill_gaps loads oa client d cb w) = d'"
      using False mc Inr m by (cases e) (auto simp: fill_gaps_def Let_def)
    with score_merge [of oa d "parse_json_response loads content"] m show ?thesis by simp
  qed
qed

text \<open>
  C7. For an input whose score lies between 0 and 100, the score of the profile that
  \<open>fill_gaps\<close> returns is at least the input's and at most 100, whatever the model
  replies and whichever path is taken: the short circuit, a merge that completes, a
  failed call, or a merge that raises part of the way.
\<close>

theorem fill_gaps_score_bounds:
  assumes "0 \<le> data_quality_score d" and "data_quality_score d \<le> 100"
  shows "data_quality_score d \<le> data_quality_score (fst (fill_gaps loads oa client d cb w))
       \<and> data_quality_score (fst (fill_gaps loads oa client d cb w)) \<le> 100"
  using assms score_fill_gaps [of loads oa client d cb w] by auto

theorem fill_gaps_score_bounds_witness:
  "0 \<le> data_quality_score weak_profile
   \<and> data_quality_score weak_profile \<le> 100
   \<and> data_quality_score weak_profile
       \<le> data_quality_score
            (fst (fill_gaps loads_empty_object (\<lambda>f. False) (one_reply ''{}'') weak_profile None ()))
   \<and> data_quality_score
        (fst (fill_gaps loads_empty_object (\<lambda>f. False) (one_reply ''{}'') weak_profile None ()))
       \<le> 100"
proof -
  have lo: "0 \<le> data_quality_score weak_profile"
    by (simp add: weak_profile_def minimal_profile_def)
  have hi: "data_quality_score weak_profile \<le> 100"
    by (simp add: weak_profile_def minimal_profile_def)
  show ?thesis
    using fill_gaps_score_bounds [OF lo hi, of loads_empty_object "\<lambda>f. False" "one_reply ''{}''" None "()"]
      lo hi
    by simp
qed

section \<open>Extraction: a reply that is no JSON\<close>

lemma v_str_items_keys: "v_str_items (map (\<lambda>kv. JStr (fst kv)) xs) = Inr (map fst xs)"
  by (induction xs) (simp_all add: and_then_def)

lemma to_business_data_empty:
  "to_business_data (JObj []) sr
     = Inr ((minimal_profile ''Business'')\<lparr>data_quality_score := 50,
                                              sources_used := map fst (raw_data sr),
                                              missing_fields := []\<rparr>)"
  by (simp add: to_business_data_def and_then_def minimal_profile_def parse_contact_def
      parse_social_def parse_hours_def default_contact_def default_social_def opt_str_json_def
      Let_def comp_def v_str_items_keys)

text \<open>
  C2 fails on the code as follows. When the model's reply cannot be parsed,
  \<open>parse_json_response\<close> returns the empty dict instead of raising, so the handler
  that builds the minimal profile is not reached: \<open>to_business_data\<close> fills every
  field from its defaults. The result is a profile named ``Business'' with score 50 and
  no missing field, whatever the business name was; it is not the minimal profile.
\<close>

theorem unparseable_reply_gives_default_profile:
  assumes "replies client = Inr content # rest"
    and "parse_json_response loads content = JObj []"
  shows "fst (extract_business_data loads client sr nm cb w)
           = (minimal_profile ''Business'')\<lparr>data_quality_score := 50,
                                               sources_used := map fst (raw_data sr),
                                               missing_fields := []\<rparr>
       \<and> fst (extract_business_data loads client sr nm cb w) \<noteq> minimal_profile nm"
  using assms
  by (simp add: extract_business_data_def messages_create_def to_business_data_empty Let_def
      minimal_profile_def)

text \<open>The other half of C2 holds: when the call itself raises, the result is the
  minimal profile.\<close>

theorem failed_call_gives_minimal_profile:
  assumes "replies client = Inl e # rest"
  shows "fst (extract_business_data loads client sr nm cb w) = minimal_profile nm"
  using assms by (simp add: extract_business_data_def messages_create_def Let_def)

lemma parse_not_json: "parse_json_response loads_nothing ''not json'' = JObj []"
  by code_simp

theorem unparseable_reply_gives_default_profile_witness:
  "parse_json_response loads_nothing ''not json'' = JObj []
   \<and> ebd_name (fst (extract_business_data loads_nothing (one_reply ''not json'')
                      \<lparr>sources = [], raw_data = []\<rparr> ''Acme Coffee'' None ())) = ''Business''
   \<and> data_quality_score (fst (extract_business_data loads_nothing (one_reply ''not json'')
                      \<lparr>sources = [], raw_data = []\<rparr> ''Acme Coffee'' None ())) = 50
   \<and> missing_fields (fst (extract_business_data loads_nothing (one_reply ''not json'')
                      \<lparr>sources = [], raw_data = []\<rparr> ''Acme Coffee'' None ())) = []
   \<and> fst (extract_business_data loads_nothing (one_reply ''not json'')
                      \<lparr>sources = [], raw_data = []\<rparr> ''Acme Coffee'' None ())
       \<noteq> minimal_profile ''Acme Coffee''"
proof -
  have r: "replies (one_reply ''not json'') = Inr ''not json'' # []"
    by (simp add: one_reply_def)
  show ?thesis
    using unparseable_reply_gives_default_profile
      [OF r parse_not_json, of "\<lparr>sources = [], raw_data = []\<rparr>" "''Acme Coffee''" None "()"]
      parse_not_json
    by (simp add: minimal_profile_def)
qed

theorem failed_call_gives_minimal_profile_witness:
  "replies \<lparr>replies = [Inl (Exception ''APIStatusError'')], calls = 0\<rparr>
     = Inl (Exception ''APIStatusError'') # []
   \<and> fst (extract_business_data loads_nothing \<lparr>replies = [Inl (Exception ''APIStatusError'')], calls = 0\<rparr>
           \<lparr>sources = [], raw_data = []\<rparr> ''Acme Coffee'' None ())
       = minimal_profile ''Acme Coffee''"
proof -
  have r: "replies \<lparr>replies = [Inl (Exception ''APIStatusError'')], calls = 0\<rparr>
             = Inl (Exception ''APIStatusError'') # []"
    by simp
  show ?thesis
    using failed_call_gives_minimal_profile [OF r] r by simp
qed

section \<open>Gap filling: the recomputed list of missing fields\<close>

lemma missing_fill [simp]:
  "missing_fields (fill_tagline g d) = missing_fields d"
  "missing_fields (fill_description_short g d) = missing_fields d"
  "missing_fields (fill_description_long g d) = missing_fields d"
  "missing_fields (fill_usps g d) = missing_fields d"
  by (simp_all add: fill_tagline_def fill_description_short_def fill_description_long_def
      fill_usps_def)

lemma missing_recalculate:
  "missing_fields (recalculate oa d)
     = filter (attr_truthy oa ((recalculate oa d)\<lparr>missing_fields := missing_fields d\<rparr>))
         (missing_fields d)"
  by (simp add: recalculate_def Let_def)

text \<open>A merge either completes, and then its result is \<open>recalculate\<close> applied to an object
  with the old list, or it raises before the list is touched.\<close>

lemma merge_result:
  "(fst (merge_gap_data oa d g) = None
      \<and> (\<exists>d0. snd (merge_gap_data oa d g) = recalculate oa d0
                \<and> missing_fields d0 = missing_fields d))
   \<or> (fst (merge_gap_data oa d g) \<noteq> None
      \<and> missing_fields (snd (merge_gap_data oa d g)) = missing_fields d)"
proof (cases "is_dict g")
  case False
  then show ?thesis by (simp add: merge_gap_data_def)
next
  case True
  let ?g = "\<lambda>k. case dict_get g k JNull of Inr v \<Rightarrow> v | Inl e \<Rightarrow> JNull"
  let ?d3 = "fill_description_long (?g ''description_long'')
               (fill_description_short (?g ''description_short'') (fill_tagline (?g ''tagline'') d))"
  show ?thesis
  proof (cases "truthy (?g ''services'')")
    case False
    let ?d0 = "fill_usps (?g ''unique_selling_points'') ?d3"
    from False True have "merge_gap_data oa d g = (None, recalculate oa ?d0)"
      by (simp add: merge_gap_data_def Let_def)
    moreover have "missing_fields ?d0 = missing_fields d" by simp
    ultimately show ?thesis by auto
  next
    case t: True
    show ?thesis
    proof (cases "and_then (py_iter (?g ''services'')) gap_services")
      case (Inl e)
      with True t show ?thesis by (simp add: merge_gap_data_def Let_def)
    next
      case (Inr gs)
      let ?d4 = "if length gs > length (services ?d3) then ?d3\<lparr>services := gs\<rparr> else ?d3"
      let ?d0 = "fill_usps (?g ''unique_selling_points'') ?d4"
      from True t Inr have "merge_gap_data oa d g = (None, recalculate oa ?d0)"
        by (simp add: merge_gap_data_def Let_def)
      moreover have "missing_fields ?d0 = missing_fields d" by simp
      ultimately show ?thesis by auto
    qed
  qed
qed

text \<open>
  C3 fails on the code as follows. After a merge that completes, \<open>missing_fields\<close>
  is the old list filtered by \<^verbatim>\<open>getattr(data, f, None)\<close> being truthy: it keeps the names
  whose attribute is populated and drops the names whose attribute is still empty,
  the opposite of what the claim (and the field's name) says. The result is a sublist
  of the input's list all the same.
\<close>

theorem merge_keeps_the_populated_names:
  assumes "merge_gap_data oa d g = (None, d')"
  shows "missing_fields d'
           = filter (attr_truthy oa (d'\<lparr>missing_fields := missing_fields d\<rparr>)) (missing_fields d)"
proof -
  from merge_result [of oa d g] assms obtain d0 where
    d0: "d' = recalculate oa d0" "missing_fields d0 = missing_fields d"
    by auto
  show ?thesis using missing_recalculate [of oa d0] d0 by simp
qed

lemma merge_example:
  "merge_gap_data (\<lambda>f. False) gappy_profile tagline_reply
      = (None, gappy_profile\<lparr>tagline := JStr ''Fresh coffee daily'', data_quality_score := 55,
                              missing_fields := [''tagline'']\<rparr>)"
  by (simp add: merge_gap_data_def recalculate_def fill_tagline_def fill_description_short_def
      fill_description_long_def fill_usps_def Let_def gappy_profile_def tagline_reply_def
      minimal_profile_def attr_truthy_def)

theorem merge_keeps_the_populated_names_witness:
  "fst (merge_gap_data (\<lambda>f. False) gappy_profile tagline_reply) = None
   \<and> missing_fields gappy_profile = [''tagline'', ''services'']
   \<and> tagline (snd (merge_gap_data (\<lambda>f. False) gappy_profile tagline_reply)) = JStr ''Fresh coffee daily''
   \<and> services (snd (merge_gap_data (\<lambda>f. False) gappy_profile tagline_reply)) = []
   \<and> missing_fields (snd (merge_gap_data (\<lambda>f. False) gappy_profile tagline_reply)) = [''tagline'']"
  using merge_keeps_the_populated_names [OF merge_example] merge_example
  by (simp add: gappy_profile_def minimal_profile_def)

text \<open>The part of C3 that holds: whether the merge completes or raises, the list it
  leaves has no name that the input's list did not have, and is no longer.\<close>

theorem merge_missing_fields_shrink:
  "set (missing_fields (snd (merge_gap_data oa d g))) \<subseteq> set (missing_fields d)
   \<and> length (missing_fields (snd (merge_gap_data oa d g))) \<le> length (missing_fields d)"
  using merge_result [of oa d g] by (auto simp: recalculate_def Let_def)

section \<open>The pipeline: what a run does to the job\<close>

lemma play_append [simp]: "play cb (xs @ ys) w = play cb ys (play cb xs w)"
  by (induction xs arbitrary: w) auto

lemma play_log [simp]: "play log_cb es tr = tr @ es"
  by (induction es arbitrary: tr) (auto simp: log_cb_def)

lemma scrape_all_play:
  "scrape_all env req (Some cb) w
     = (fst (scrape_all env req None ()), play cb (scrape_events env req) w)"
  by (simp add: scrape_events_def scrape_all_def report_def log_cb_def Let_def split: prod.split)

lemma extract_play:
  "extract_business_data loads client sr nm (Some cb) w
     = (fst (extract_business_data loads client sr nm None ()),
        fst (snd (extract_business_data loads client sr nm None ())),
        play cb (extract_events loads client sr nm) w)"
  by (simp add: extract_events_def extract_business_data_def report_def log_cb_def Let_def
      split: prod.split sum.split)

lemma fill_gaps_play:
  "fill_gaps loads oa client d (Some cb) w
     = (fst (fill_gaps loads oa client d None ()),
        fst (snd (fill_gaps loads oa client d None ())),
        play cb (gap_events loads oa client d) w)"
  by (simp add: gap_events_def fill_gaps_def report_def log_cb_def Let_def
      split: prod.split sum.split option.split)

lemma generate_play:
  "generate key el client d (Some cb) w
     = (fst (generate key el client d None ()),
        fst (snd (generate key el client d None ())),
        play cb (generate_events key el client d) w)"
  by (simp add: generate_events_def generate_def report_def log_cb_def Let_def
      split: prod.split sum.split option.split)

lemma run_play:
  "run env client req (Some cb) w
     = (fst (run env client req None ()),
        fst (snd (run env client req None ())),
        play cb (run_events env client req) w)"
  by (simp add: run_events_def run_def scrape_all_play extract_play fill_gaps_play generate_play
      Let_def log_cb_def split: prod.split sum.split)









lemma same_results_refl [simp]: "same_results a a"
  by (simp add: same_results_def)

lemma same_results_trans: "same_results a b \<Longrightarrow> same_results b c \<Longrightarrow> same_results a c"
  by (simp add: same_results_def)

lemma store_and_notify_eq:
  "store_and_notify j st =
     (j\<lparr>updated_at := clock st\<rparr>,
      st\<lparr>clock := clock st + 1,
         job_store := AList.update (job_id j) (j\<lparr>updated_at := clock st\<rparr>) (job_store st),
         pushed := pushed st @ [j\<lparr>updated_at := clock st\<rparr>]\<rparr>)"
  by (simp add: store_and_notify_def utcnow_def update_def notify_job_update_def Let_def)

lemma on_progress_cb_step:
  assumes "on_progress_cb stg msg pct (j, st) = (j', st')"
  shows "same_results j j'"
    and "current_stage j' = Some stg"
    and "map stage (progress j') = map stage (progress j) @ [stg]"
    and "pushed st' = pushed st @ [j']"
    and "get (job_store st') (job_id j) = Some j'"
    and "remote_calls st' = remote_calls st"
  using assms
  by (auto simp: on_progress_cb_def store_and_notify_eq utcnow_def Let_def same_results_def
      get_def update_conv')

lemma play_on_progress:
  assumes "play on_progress_cb es (j, st) = (j', st')"
  shows "same_results j j'
       \<and> map stage (progress j') = map stage (progress j) @ map fst es
       \<and> remote_calls st' = remote_calls st
       \<and> (es \<noteq> [] \<longrightarrow> get (job_store st') (job_id j) = Some j' \<and> current_stage j' = Some (fst (last es)))
       \<and> (es = [] \<longrightarrow> j' = j \<and> st' = st)
       \<and> (\<exists>ps. pushed st' = pushed st @ ps
              \<and> map status ps = replicate (length es) (status j)
              \<and> map error ps = replicate (length es) (error j)
              \<and> map current_stage ps = map (\<lambda>e. Some (fst e)) es)"
  using assms
proof (induction es arbitrary: j st)
  case Nil
  then show ?case by simp
next
  case (Cons e es)
  obtain j1 st1 where s: "on_progress_cb (fst e) (fst (snd e)) (snd (snd e)) (j, st) = (j1, st1)"
    by (cases "on_progress_cb (fst e) (fst (snd e)) (snd (snd e)) (j, st)")
  note st = on_progress_cb_step [OF s]
  from Cons.prems s have p: "play on_progress_cb es (j1, st1) = (j', st')" by simp
  note ih = Cons.IH [OF p]
  from ih obtain ps where ps: "pushed st' = pushed st1 @ ps"
      "map status ps = replicate (length es) (status j1)"
      "map error ps = replicate (length es) (error j1)"
      "map current_stage ps = map (\<lambda>e. Some (fst e)) es"
    by blast
  have sr: "same_results j j'" using st(1) ih same_results_trans by blast
  have id: "job_id j1 = job_id j" "status j1 = status j" "error j1 = error j"
    using st(1) by (simp_all add: same_results_def)
  have pushes: "pushed st' = pushed st @ (j1 # ps)
      \<and> map status (j1 # ps) = replicate (length (e # es)) (status j)
      \<and> map error (j1 # ps) = replicate (length (e # es)) (error j)
      \<and> map current_stage (j1 # ps) = map (\<lambda>e. Some (fst e)) (e # es)"
    using ps st(2,4) id by simp
  have stg: "map stage (progress j') = map stage (progress j) @ map fst (e # es)"
    using ih st(3) by simp
  have rc: "remote_calls st' = remote_calls st" using ih st(6) by simp
  have last: "get (job_store st') (job_id j) = Some j' \<and> current_stage j' = Some (fst (last (e # es)))"
  proof (cases "es = []")
    case True
    with ih have "j' = j1" "st' = st1" by simp_all
    with st True show ?thesis by simp
  next
    case False
    with ih id show ?thesis by simp
  qed
  show ?case using sr stg rc last pushes by blast
qed

lemma process_job_ok:
  assumes g: "get (job_store st) jid = Some j" and i: "job_id j = jid"
    and ok: "fst (run env client (request j) None ()) = Inr res"
  shows "\<exists>ps jf. pushed (process_job env client jid st) = pushed st @ ps
       \<and> map status ps
           = replicate (length (run_events env client (request j))) (status j) @ [COMPLETED, COMPLETED]
       \<and> map current_stage ps
           = map (\<lambda>e. Some (fst e)) (run_events env client (request j))
             @ [Some ''completed'', Some ''completed'']
       \<and> get (job_store (process_job env client jid st)) jid = Some jf
       \<and> status jf = COMPLETED \<and> error jf = error j \<and> deployment jf = deployment j
       \<and> generated_site jf = Some (res_generated_site res)
       \<and> job_id jf = jid \<and> request jf = request j
       \<and> map stage (progress jf)
           = map stage (progress j) @ map fst (run_events env client (request j)) @ [''completed'']
       \<and> remote_calls (process_job env client jid st) = remote_calls st
       \<and> last ps = jf \<and> current_stage jf = Some ''completed''"
proof -
  let ?es = "run_events env client (request j)"
  obtain j1 st1 where p: "play on_progress_cb ?es (j, st) = (j1, st1)"
    by (cases "play on_progress_cb ?es (j, st)")
  note pl = play_on_progress [OF p]
  from pl obtain ps where ps: "pushed st1 = pushed st @ ps"
      "map status ps = replicate (length ?es) (status j)"
      "map current_stage ps = map (\<lambda>e. Some (fst e)) ?es"
    by blast
  define j2 where "j2 = j1\<lparr>scrape_result := Some (res_scrape_result res),
                            extracted_data := Some (res_extracted_data res),
                            generated_site := Some (res_generated_site res),
                            status := COMPLETED, updated_at := clock st1\<rparr>"
  define st2 where "st2 = st1\<lparr>clock := clock st1 + 1\<rparr>"
  obtain j3 st3 where c: "on_progress_cb ''completed'' ''Website generated successfully!'' 100 (j2, st2) = (j3, st3)"
    by (cases "on_progress_cb ''completed'' ''Website generated successfully!'' 100 (j2, st2)")
  note cs = on_progress_cb_step [OF c]
  have pj: "process_job env client jid st = snd (store_and_notify j3 st3)"
    using g ok p c
    by (simp add: process_job_def run_play [of env client "request j" on_progress_cb] utcnow_def
        Let_def j2_def st2_def)
  have sr1: "same_results j j1" using pl by simp
  have id3: "job_id j3 = jid" using cs(1) sr1 i by (simp add: same_results_def j2_def)
  let ?jf = "j3\<lparr>updated_at := clock st3\<rparr>"
  have "pushed (process_job env client jid st) = pushed st @ (ps @ [j3, ?jf])"
    using pj ps(1) cs(4) by (simp add: store_and_notify_eq st2_def)
  moreover have "map status (ps @ [j3, ?jf]) = replicate (length ?es) (status j) @ [COMPLETED, COMPLETED]"
    using ps(2) cs(1) by (simp add: same_results_def j2_def)
  moreover have "map current_stage (ps @ [j3, ?jf])
        = map (\<lambda>e. Some (fst e)) ?es @ [Some ''completed'', Some ''completed'']"
    using ps(3) cs(2) by simp
  moreover have "get (job_store (process_job env client jid st)) jid = Some ?jf"
    using pj id3 by (simp add: store_and_notify_eq get_def update_conv')
  moreover have "status ?jf = COMPLETED \<and> error ?jf = error j \<and> deployment ?jf = deployment j
       \<and> generated_site ?jf = Some (res_generated_site res) \<and> job_id ?jf = jid
       \<and> request ?jf = request j"
    using cs(1) sr1 i by (simp add: same_results_def j2_def)
  moreover have "map stage (progress ?jf) = map stage (progress j) @ map fst ?es @ [''completed'']"
    using cs(3) pl by (simp add: j2_def)
  moreover have "remote_calls (process_job env client jid st) = remote_calls st"
    using pj cs(6) pl by (simp add: store_and_notify_eq st2_def)
  moreover have "last (ps @ [j3, ?jf]) = ?jf \<and> current_stage ?jf = Some ''completed''"
    using cs(2) by simp
  ultimately show ?thesis by blast
qed


lemma create_job_stored:
  "get (job_store (snd (create_job jid req st))) jid = Some (job (fst (create_job jid req st)))"
  "job_id (job (fst (create_job jid req st))) = jid"
  "status (job (fst (create_job jid req st))) = PENDING"
  "request (job (fst (create_job jid req st))) = req"
  "error (job (fst (create_job jid req st))) = None"
  "generated_site (job (fst (create_job jid req st))) = None"
  "deployment (job (fst (create_job jid req st))) = None"
  "progress (job (fst (create_job jid req st))) = []"
  "pushed (snd (create_job jid req st)) = pushed st"
  "remote_calls (snd (create_job jid req st)) = remote_calls st"
  by (simp_all add: create_job_def utcnow_def create_def get_def update_conv' Let_def)








lemma acme_run_returns: "\<not> isl (fst (run acme_env acme_client acme_request None ()))"
  by code_simp



section \<open>Scrape stage: the fan-in\<close>

lemma update_fresh: "k \<notin> fst ` set al \<Longrightarrow> AList.update k v al = al @ [(k, v)]"
  by (induction al) auto

lemma process_results_sources:
  "fst (process_results xs srcs raw) = srcs @ map (\<lambda>x. entry_of (fst x) (snd x)) xs"
proof (induction xs arbitrary: srcs raw)
  case Nil
  then show ?case by simp
next
  case (Cons x xs)
  obtain nm r where x: "x = (nm, r)" by (cases x)
  show ?case using Cons.IH by (cases r) (simp_all add: x entry_of_def)
qed

lemma process_results_raw:
  "distinct (map fst xs) \<Longrightarrow> fst ` set raw \<inter> fst ` set xs = {} \<Longrightarrow>
   snd (process_results xs srcs raw) = raw @ concat (map (\<lambda>x. payload_of (fst x) (snd x)) xs)"
proof (induction xs arbitrary: srcs raw)
  case Nil
  then show ?case by simp
next
  case (Cons x xs)
  obtain nm r where x: "x = (nm, r)" by (cases x)
  from Cons.prems x have fresh: "nm \<notin> fst ` set raw" and d: "distinct (map fst xs)"
    and nx: "nm \<notin> fst ` set xs" and disj: "fst ` set raw \<inter> fst ` set xs = {}"
    by auto
  show ?case
  proof (cases r)
    case (Inl e)
    with Cons.IH [OF d disj] show ?thesis by (simp add: x payload_of_def)
  next
    case (Inr s)
    show ?thesis
    proof (cases "\<exists>p. data s = Some p \<and> success s \<and> p \<noteq> []")
      case True
      then obtain p where p: "data s = Some p" "success s" "p \<noteq> []" by blast
      have "fst ` set (raw @ [(nm, p)]) \<inter> fst ` set xs = {}"
        using disj nx by auto
      from Cons.IH [OF d this] show ?thesis
        using p Inr fresh by (simp add: x payload_of_def update_fresh)
    next
      case False
      with Cons.IH [OF d disj] Inr show ?thesis
        by (auto simp: x payload_of_def split: option.split)
    qed
  qed
qed

lemma entry_connector:
  "entry_of tag (if started then connector tag out else empty_result tag) = expected_source tag started out"
  by (cases out) (simp_all add: entry_of_def connector_def empty_result_def expected_source_def)

lemma payload_connector:
  "payload_of tag (if started then connector tag out else empty_result tag) = expected_raw tag started out"
  by (cases out) (auto simp: payload_of_def connector_def empty_result_def expected_raw_def
      split: option.split)

text \<open>
  C5. Whatever each connector ends with, and with or without a callback, \<open>scrape_all\<close>
  returns one record per source in the order google, website, facebook, instagram: the
  connector's own record, a failure record carrying the message when it raised, and a
  ``Not provided'' record when the request does not name the source. \<open>raw_data\<close> holds,
  in the same order, exactly the sources that were started, succeeded and read a payload
  that is not empty.
\<close>

theorem scrape_all_fan_in:
  "sources (fst (scrape_all env req cb w))
     = [expected_source ''google'' (truthy_str (location req)) (google_outcome env),
        expected_source ''website'' (website_url req \<noteq> None) (website_outcome env),
        expected_source ''facebook'' (facebook_url req \<noteq> None) (facebook_outcome env),
        expected_source ''instagram'' (truthy_str (instagram_url req)) (instagram_outcome env)]
   \<and> map source (sources (fst (scrape_all env req cb w)))
     = [''google'', ''website'', ''facebook'', ''instagram'']
   \<and> raw_data (fst (scrape_all env req cb w))
     = expected_raw ''google'' (truthy_str (location req)) (google_outcome env)
       @ expected_raw ''website'' (website_url req \<noteq> None) (website_outcome env)
       @ expected_raw ''facebook'' (facebook_url req \<noteq> None) (facebook_outcome env)
       @ expected_raw ''instagram'' (truthy_str (instagram_url req)) (instagram_outcome env)"
proof -
  let ?xs = "zip source_names (gather_tasks env req)"
  have xs: "?xs = [(''google'', if truthy_str (location req) then connector ''google'' (google_outcome env) else empty_result ''google''),
                   (''website'', if website_url req \<noteq> None then connector ''website'' (website_outcome env) else empty_result ''website''),
                   (''facebook'', if facebook_url req \<noteq> None then connector ''facebook'' (facebook_outcome env) else empty_result ''facebook''),
                   (''instagram'', if truthy_str (instagram_url req) then connector ''instagram'' (instagram_outcome env) else empty_result ''instagram'')]"
    by (simp add: source_names_def gather_tasks_def scrape_google_places_def scrape_website_def
        scrape_facebook_def scrape_instagram_def)
  have dx: "distinct (map fst ?xs)" unfolding xs by simp
  have s: "sources (fst (scrape_all env req cb w)) = fst (process_results ?xs [] [])"
    by (simp add: scrape_all_def Let_def split: prod.split)
  have r: "raw_data (fst (scrape_all env req cb w)) = snd (process_results ?xs [] [])"
    by (simp add: scrape_all_def Let_def split: prod.split)
  have 1: "sources (fst (scrape_all env req cb w))
     = [expected_source ''google'' (truthy_str (location req)) (google_outcome env),
        expected_source ''website'' (website_url req \<noteq> None) (website_outcome env),
        expected_source ''facebook'' (facebook_url req \<noteq> None) (facebook_outcome env),
        expected_source ''instagram'' (truthy_str (instagram_url req)) (instagram_outcome env)]"
    unfolding s process_results_sources xs by (simp add: entry_connector)
  have tag: "\<And>t b out. source (expected_source t b out) = t"
    by (simp add: expected_source_def split: connector_outcome.split)
  have 2: "map source (sources (fst (scrape_all env req cb w)))
     = [''google'', ''website'', ''facebook'', ''instagram'']"
    unfolding 1 by (simp add: tag)
  have "snd (process_results ?xs [] []) = [] @ concat (map (\<lambda>x. payload_of (fst x) (snd x)) ?xs)"
    by (rule process_results_raw [OF dx]) simp
  then have 3: "raw_data (fst (scrape_all env req cb w))
     = expected_raw ''google'' (truthy_str (location req)) (google_outcome env)
       @ expected_raw ''website'' (website_url req \<noteq> None) (website_outcome env)
       @ expected_raw ''facebook'' (facebook_url req \<noteq> None) (facebook_outcome env)
       @ expected_raw ''instagram'' (truthy_str (instagram_url req)) (instagram_outcome env)"
    unfolding r xs by (simp add: payload_connector)
  show ?thesis using 1 2 3 by blast
qed

theorem scrape_all_fan_in_witness:
  "map source (sources (fst (scrape_all mixed_sources full_request None ())))
     = [''google'', ''website'', ''facebook'', ''instagram'']
   \<and> map success (sources (fst (scrape_all mixed_sources full_request None ())))
     = [True, True, False, False]
   \<and> raw_data (fst (scrape_all mixed_sources full_request None ()))
     = [(''google'', [(''name'', JStr ''Acme Coffee'')])]"
  using scrape_all_fan_in [of mixed_sources full_request None "()"]
  by (simp add: mixed_sources_def full_request_def expected_source_def expected_raw_def
      truthy_str_def)

section \<open>Deployment: the request handler and the deployer\<close>

lemma deploy_job_failed:
  assumes g: "get (job_store st) jid = Some j" and i: "job_id j = jid"
    and s: "generated_site j = Some site" and d: "deployment j = None"
    and r: "deploy env (html site) (business_name (request j)) (custom_domain req) = (Inl e, n)"
  shows "fst (deploy_job env jid req st) = Inl (HTTPException 500 (str_error e))"
    and "\<exists>jf. get (job_store (snd (deploy_job env jid req st))) jid = Some jf
          \<and> status jf = FAILED \<and> error jf = Some (''Deployment failed: '' @ str_error e)
          \<and> deployment jf = None \<and> generated_site jf = Some site \<and> job_id jf = jid
          \<and> request jf = request j"
    and "map status (drop (length (pushed st)) (pushed (snd (deploy_job env jid req st)))) = [DEPLOYING, FAILED]"
    and "remote_calls (snd (deploy_job env jid req st)) = remote_calls st + n"
  using assms
  by (simp_all add: deploy_job_def store_and_notify_eq Let_def get_def update_conv' utcnow_def)

lemma deploy_job_ok:
  assumes g: "get (job_store st) jid = Some j" and i: "job_id j = jid"
    and s: "generated_site j = Some site" and d: "deployment j = None"
    and r: "deploy env (html site) (business_name (request j)) (custom_domain req) = (Inr dr, n)"
  shows "\<exists>jf. fst (deploy_job env jid req st) = Inr \<lparr>job = jf, response_message = ''Deployed successfully''\<rparr>
          \<and> get (job_store (snd (deploy_job env jid req st))) jid = Some jf
          \<and> status jf = COMPLETED \<and> error jf = error j
          \<and> deployment jf = Some dr \<and> generated_site jf = Some site \<and> job_id jf = jid
          \<and> request jf = request j"
    and "map status (drop (length (pushed st)) (pushed (snd (deploy_job env jid req st)))) = [DEPLOYING, COMPLETED]"
    and "remote_calls (snd (deploy_job env jid req st)) = remote_calls st + n"
  using assms
  by (simp_all add: deploy_job_def store_and_notify_eq Let_def get_def update_conv' utcnow_def)

lemma deploy_ignores_page: "deploy env page nm domain = deploy env [] nm domain"
  by (simp add: deploy_def)

text \<open>The state after the pipeline run of the example, and what the example deployments
  give.\<close>

lemma acme_done_job:
  "\<exists>j site. get (job_store acme_done) ''job-1'' = Some j \<and> job_id j = ''job-1''
     \<and> generated_site j = Some site \<and> deployment j = None \<and> error j = None
     \<and> status j = COMPLETED \<and> request j = acme_request"
proof -
  note cj = create_job_stored [of "''job-1''" acme_request initial_state]
  obtain res where "fst (run acme_env acme_client acme_request None ()) = Inr res"
    using acme_run_returns by (cases "fst (run acme_env acme_client acme_request None ())") auto
  then have ok: "fst (run acme_env acme_client
      (request (job (fst (create_job ''job-1'' acme_request initial_state)))) None ()) = Inr res"
    using cj(4) by simp
  from process_job_ok [OF cj(1) cj(2) ok] show ?thesis
    unfolding acme_done_def acme_created_def using cj(4,5,7) by auto
qed

lemma deploy_ok_example: "deploy vercel_ok [] ''Acme Coffee'' None = (Inr acme_deployment, 3)"
  by code_simp

lemma deploy_down_example:
  "deploy vercel_down [] ''Acme Coffee'' None = (Inl (Exception ''ConnectError''), 1)"
  by code_simp

lemma deploy_refused_example:
  "deploy vercel_domain_refused [] ''Acme Coffee'' None = (Inr acme_deployment, 3)"
  by code_simp

lemma deploy_unreachable_example:
  "deploy vercel_domain_unreachable [] ''Acme Coffee'' None = (Inr acme_deployment, 3)"
  "deploy vercel_domain_unreachable [] ''Acme Coffee'' (Some ''acme.example'')
     = (Inl (Exception ''ConnectError''), 4)"
  by code_simp+

lemma acme_deployed_job:
  "\<exists>j. get (job_store acme_deployed) ''job-1'' = Some j \<and> deployment j = Some acme_deployment
     \<and> generated_site j \<noteq> None"
proof -
  from acme_done_job obtain j site where
    j: "get (job_store acme_done) ''job-1'' = Some j" "job_id j = ''job-1''"
       "generated_site j = Some site" "deployment j = None" "request j = acme_request"
    by blast
  have d: "deploy vercel_ok (html site) (business_name (request j)) (custom_domain no_domain)
             = (Inr acme_deployment, 3)"
    using deploy_ok_example deploy_ignores_page [of vercel_ok "html site"]
    by (simp add: j(5) acme_request_def no_domain_def)
  from deploy_job_ok(1) [OF j(1) j(2) j(3) j(4) d] show ?thesis
    unfolding acme_deployed_def by auto
qed

text \<open>
  C6. For a stored job with no generated site, the preview and the deploy request are
  both refused with status 400, and the deploy request leaves the process state as it
  was. For a stored job that carries a deployment, a deploy request is refused with
  status 400 and leaves the process state as it was: no request is sent to the hosting
  API and the job keeps the deployment it has.
\<close>

theorem rejected_without_site_or_when_deployed:
  assumes "get (job_store st) jid = Some j"
  shows "(generated_site j = None \<longrightarrow>
            get_job_preview jid st = Inl (HTTPException 400 ''Website not yet generated'')
            \<and> deploy_job env jid req st = (Inl (HTTPException 400 ''Website not yet generated''), st))
       \<and> (deployment j \<noteq> None \<longrightarrow>
            deploy_job env jid req st
              = (Inl (HTTPException 400 (if generated_site j = None then ''Website not yet generated''
                                          else ''Already deployed'')), st)
            \<and> remote_calls (snd (deploy_job env jid req st)) = remote_calls st
            \<and> get (job_store (snd (deploy_job env jid req st))) jid = Some j)"
  using assms
  by (auto simp: get_job_preview_def deploy_job_def split: option.split)

theorem rejected_without_site_or_when_deployed_witness:
  "get_job_preview ''job-1'' acme_created = Inl (HTTPException 400 ''Website not yet generated'')
   \<and> deploy_job vercel_ok ''job-1'' no_domain acme_created
       = (Inl (HTTPException 400 ''Website not yet generated''), acme_created)
   \<and> deploy_job vercel_ok ''job-1'' no_domain acme_deployed
       = (Inl (HTTPException 400 ''Already deployed''), acme_deployed)
   \<and> remote_calls (snd (deploy_job vercel_ok ''job-1'' no_domain acme_deployed))
       = remote_calls acme_deployed"
proof -
  note cj = create_job_stored [of "''job-1''" acme_request initial_state]
  have g1: "get (job_store acme_created) ''job-1''
              = Some (job (fst (create_job ''job-1'' acme_request initial_state)))"
    using cj(1) by (simp add: acme_created_def)
  from acme_deployed_job obtain j where
    j: "get (job_store acme_deployed) ''job-1'' = Some j" "deployment j = Some acme_deployment"
       "generated_site j \<noteq> None"
    by blast
  show ?thesis
    using rejected_without_site_or_when_deployed [OF g1, of vercel_ok no_domain]
      rejected_without_site_or_when_deployed [OF j(1), of vercel_ok no_domain]
      cj(6) j(2,3)
    by simp
qed

text \<open>
  C4 fails on the code as follows. Take a stored job with a generated site and no
  deployment, as a successful pipeline run leaves it. A deploy request that fails sets
  the status to failed and records the message. Nothing clears \<open>error\<close>, and the
  handler admits a further request because the job still has no deployment: when that
  one succeeds the job is completed and still carries the message of the failure.
\<close>

theorem stale_error_after_deploy_retry:
  assumes "get (job_store st) jid = Some j" and "job_id j = jid"
    and "generated_site j = Some site" and "deployment j = None"
    and "deploy env1 (html site) (business_name (request j)) (custom_domain req1) = (Inl e, n1)"
    and "deploy env2 (html site) (business_name (request j)) (custom_domain req2) = (Inr dr, n2)"
  shows "\<exists>jf. get (job_store (snd (deploy_job env2 jid req2 (snd (deploy_job env1 jid req1 st))))) jid
                = Some jf
            \<and> status jf = COMPLETED
            \<and> error jf = Some (''Deployment failed: '' @ str_error e)"
proof -
  from deploy_job_failed(2) [OF assms(1-5)] obtain j1 where
    j1: "get (job_store (snd (deploy_job env1 jid req1 st))) jid = Some j1"
        "error j1 = Some (''Deployment failed: '' @ str_error e)"
        "deployment j1 = None" "generated_site j1 = Some site" "job_id j1 = jid"
        "request j1 = request j"
    by blast
  have d: "deploy env2 (html site) (business_name (request j1)) (custom_domain req2) = (Inr dr, n2)"
    using assms(6) j1(6) by simp
  from deploy_job_ok(1) [OF j1(1) j1(5) j1(4) j1(3) d] j1(2) show ?thesis by auto
qed

theorem stale_error_after_deploy_retry_witness:
  "map_option status (get (job_store acme_retried) ''job-1'') = Some COMPLETED
   \<and> map_option error (get (job_store acme_retried) ''job-1'')
       = Some (Some ''Deployment failed: ConnectError'')"
proof -
  from acme_done_job obtain j site where
    j: "get (job_store acme_done) ''job-1'' = Some j" "job_id j = ''job-1''"
       "generated_site j = Some site" "deployment j = None" "request j = acme_request"
    by blast
  have d1: "deploy vercel_down (html site) (business_name (request j)) (custom_domain no_domain)
             = (Inl (Exception ''ConnectError''), 1)"
    using deploy_down_example deploy_ignores_page [of vercel_down "html site"]
    by (simp add: j(5) acme_request_def no_domain_def)
  have d2: "deploy vercel_ok (html site) (business_name (request j)) (custom_domain no_domain)
             = (Inr acme_deployment, 3)"
    using deploy_ok_example deploy_ignores_page [of vercel_ok "html site"]
    by (simp add: j(5) acme_request_def no_domain_def)
  from stale_error_after_deploy_retry [OF j(1) j(2) j(3) j(4) d1 d2] show ?thesis
    unfolding acme_retried_def acme_deploy_failed_def by auto
qed

section \<open>Deployment: the custom domain\<close>

lemma configure_domain_refused:
  assumes "add_domain_reply env = Inr resp" and "body resp = Some b"
    and "status_code resp \<noteq> 200" and "status_code resp \<noteq> 201"
  shows "configure_domain env = (Inr None, 1)"
  using assms by (simp add: configure_domain_def response_json_def)

lemma dns_of_deployment_result:
  "deployment_result env slug dep dns = Inr r \<Longrightarrow> dns_records r = dns"
  by (auto simp: deployment_result_def and_then_def split: sum.splits)

lemma deploy_without_domain:
  assumes "deploy env page nm None = (Inr r, n)"
  shows "dns_records r = None"
  using assms dns_of_deployment_result
  by (auto simp: deploy_def truthy_str_def Let_def split: prod.splits sum.splits)

lemma deploy_domain_refused:
  assumes "deploy env page nm None = (Inr r, n)" and "truthy_str domain"
    and "configure_domain env = (Inr None, 1)"
  shows "deploy env page nm domain = (Inr r, n + 1)"
  using assms
  by (auto simp: deploy_def truthy_str_def Let_def split: prod.splits sum.splits)

text \<open>
  The failure of the domain step that \<^verbatim>\<open>_configure_domain\<close> does absorb. Suppose the
  deployment without a custom domain succeeds. When a custom domain is requested and
  the hosting API answers the registration with a JSON body and a status other than
  200 and 201, \<open>deploy\<close> returns the same result, with no DNS records, after one more
  request; and the handler then stores the job as completed with that deployment.
\<close>

theorem domain_rejection_is_not_fatal:
  assumes "deploy env page nm None = (Inr r, n)" and "truthy_str domain"
    and "add_domain_reply env = Inr resp" and "body resp = Some b"
    and "status_code resp \<noteq> 200" and "status_code resp \<noteq> 201"
  shows "deploy env page nm domain = (Inr r, n + 1)
       \<and> dns_records r = None
       \<and> (\<forall>st jid j site req.
             get (job_store st) jid = Some j \<and> job_id j = jid \<and> generated_site j = Some site
             \<and> deployment j = None \<and> html site = page \<and> business_name (request j) = nm
             \<and> custom_domain req = domain
             \<longrightarrow> (\<exists>jf. get (job_store (snd (deploy_job env jid req st))) jid = Some jf
                      \<and> status jf = COMPLETED \<and> deployment jf = Some r \<and> error jf = error j))"
proof -
  have c: "configure_domain env = (Inr None, 1)"
    using assms(3-6) by (rule configure_domain_refused)
  have d: "deploy env page nm domain = (Inr r, n + 1)"
    using assms(1,2) c by (rule deploy_domain_refused)
  have z: "dns_records r = None" using assms(1) by (rule deploy_without_domain)
  have "\<exists>jf. get (job_store (snd (deploy_job env jid req st))) jid = Some jf
             \<and> status jf = COMPLETED \<and> deployment jf = Some r \<and> error jf = error j"
    if h: "get (job_store st) jid = Some j" "job_id j = jid" "generated_site j = Some site"
       "deployment j = None" "html site = page" "business_name (request j) = nm"
       "custom_domain req = domain"
    for st jid j site req
  proof -
    have "deploy env (html site) (business_name (request j)) (custom_domain req) = (Inr r, n + 1)"
      using d h(5,6,7) by simp
    from deploy_job_ok(1) [OF h(1) h(2) h(3) h(4) this] show ?thesis by auto
  qed
  with d z show ?thesis by blast
qed

theorem domain_rejection_is_not_fatal_witness:
  "deploy vercel_domain_refused [] ''Acme Coffee'' None = (Inr acme_deployment, 3)
   \<and> truthy_str (Some ''acme.example'')
   \<and> deploy vercel_domain_refused [] ''Acme Coffee'' (Some ''acme.example'')
       = (Inr acme_deployment, 4)
   \<and> dns_records acme_deployment = None
   \<and> map_option status
         (get (job_store (snd (deploy_job vercel_domain_refused ''job-1'' with_domain acme_done)))
            ''job-1'')
       = Some COMPLETED"
proof -
  let ?resp = "\<lparr>status_code = 409,
                 body = Some (JObj [(''error'', JObj [(''code'', JStr ''domain_already_in_use'')])]),
                 text_of = []\<rparr>"
  have t: "truthy_str (Some ''acme.example'')" by (simp add: truthy_str_def)
  have a: "add_domain_reply vercel_domain_refused = Inr ?resp"
    by (simp add: vercel_domain_refused_def)
  have b: "body ?resp = Some (JObj [(''error'', JObj [(''code'', JStr ''domain_already_in_use'')])])"
    by simp
  have s1: "status_code ?resp \<noteq> 200" and s2: "status_code ?resp \<noteq> 201" by simp_all
  note first = domain_rejection_is_not_fatal [OF deploy_refused_example t a b s1 s2]
  from acme_done_job obtain j site where
    j: "get (job_store acme_done) ''job-1'' = Some j" "job_id j = ''job-1''"
       "generated_site j = Some site" "deployment j = None" "request j = acme_request"
    by blast
  have d: "deploy vercel_domain_refused (html site) ''Acme Coffee'' None = (Inr acme_deployment, 3)"
    using deploy_refused_example deploy_ignores_page [of vercel_domain_refused "html site"] by simp
  note second = domain_rejection_is_not_fatal [OF d t a b s1 s2]
  have p6: "business_name (request j) = ''Acme Coffee''"
    by (simp add: j(5) acme_request_def)
  have p7: "custom_domain with_domain = Some ''acme.example''"
    by (simp add: with_domain_def)
  have "\<exists>jf. get (job_store (snd (deploy_job vercel_domain_refused ''job-1'' with_domain acme_done)))
               ''job-1'' = Some jf \<and> status jf = COMPLETED"
    using second j(1-4) p6 p7 by blast
  with first t deploy_refused_example show ?thesis by auto
qed

lemma deploy_bad_gateway_example:
  "deploy vercel_domain_bad_gateway [] ''Acme Coffee'' None = (Inr acme_deployment, 3)"
  "deploy vercel_domain_bad_gateway [] ''Acme Coffee'' (Some ''acme.example'')
     = (Inl (Exception ''JSONDecodeError''), 4)"
  by code_simp+

text \<open>
  C9 fails on the code as follows. \<^verbatim>\<open>_configure_domain\<close> absorbs a refusal of the
  domain only after \<^verbatim>\<open>response.json()\<close> has returned, and nothing in \<open>deploy\<close> catches
  an exception. Here the deployment without a domain succeeds, so the site is live.
  With a domain requested, when the registration request raises (the API cannot be
  reached) or is answered with a body that is no JSON (a gateway's error page),
  \<open>deploy\<close> raises after its fourth request instead of returning the result without
  DNS records, and the handler stores the job as failed, with no deployment recorded.
\<close>

theorem domain_step_exception_fails_deployment:
  "deploy vercel_domain_unreachable [] ''Acme Coffee'' None = (Inr acme_deployment, 3)
   \<and> deploy vercel_domain_unreachable [] ''Acme Coffee'' (Some ''acme.example'')
       = (Inl (Exception ''ConnectError''), 4)
   \<and> deploy vercel_domain_bad_gateway [] ''Acme Coffee'' None = (Inr acme_deployment, 3)
   \<and> deploy vercel_domain_bad_gateway [] ''Acme Coffee'' (Some ''acme.example'')
       = (Inl (Exception ''JSONDecodeError''), 4)
   \<and> map_option status
         (get (job_store (snd (deploy_job vercel_domain_unreachable ''job-1'' with_domain acme_done)))
            ''job-1'')
       = Some FAILED
   \<and> map_option deployment
         (get (job_store (snd (deploy_job vercel_domain_unreachable ''job-1'' with_domain acme_done)))
            ''job-1'')
       = Some None
   \<and> map_option error
         (get (job_store (snd (deploy_job vercel_domain_unreachable ''job-1'' with_domain acme_done)))
            ''job-1'')
       = Some (Some ''Deployment failed: ConnectError'')"
proof -
  from acme_done_job obtain j site where
    j: "get (job_store acme_done) ''job-1'' = Some j" "job_id j = ''job-1''"
       "generated_site j = Some site" "deployment j = None" "request j = acme_request"
    by blast
  have d: "deploy vercel_domain_unreachable (html site) (business_name (request j))
             (custom_domain with_domain) = (Inl (Exception ''ConnectError''), 4)"
    using deploy_unreachable_example(2)
      deploy_ignores_page [of vercel_domain_unreachable "html site"]
    by (simp add: j(5) acme_request_def with_domain_def)
  from deploy_job_failed(2) [OF j(1) j(2) j(3) j(4) d] deploy_unreachable_example
    deploy_bad_gateway_example
  show ?thesis by auto
qed

end
